theory Spec2Isabelle
  imports Complex_Main
begin

section \<open>Errors\<close>

text \<open>
  The services raise \<open>ValidationError\<close> and \<open>NotFoundError\<close> (both subclasses of
  \<open>ServiceError\<close> in \<open>services/base_service.py\<close>); the interpreter and the store raise
  the others. An operation returns \<open>error + 'a\<close>, with \<open>Inl\<close> for a raised exception.
  The message texts of the exceptions are not modelled.
\<close>

datatype error =
    ValidationError
  | NotFoundError
  | ZeroDivisionError
  | ValueError
  | IndexError
  | TypeError
  | OverflowError
  | StoreError

section \<open>Validation layer (\<open>services/base_service.py\<close>)\<close>

text \<open>
  Strings are ASCII: a \<open>char\<close> stands for one code point below 128. \<open>is_space\<close> is the
  set of ASCII code points that \<open>str.strip()\<close> removes, \<open>char_upper\<close> is \<open>str.upper()\<close>
  on one ASCII character.
\<close>

definition is_space :: "char \<Rightarrow> bool" where
  "is_space c = (let n = (of_char c :: nat) in (9 \<le> n \<and> n \<le> 13) \<or> (28 \<le> n \<and> n \<le> 32))"

definition strip :: "string \<Rightarrow> string" where
  "strip s = rev (dropWhile is_space (rev (dropWhile is_space s)))"

definition char_upper :: "char \<Rightarrow> char" where
  "char_upper c =
     (let n = (of_char c :: nat) in if 97 \<le> n \<and> n \<le> 122 then char_of (n - 32) else c)"

definition upper :: "string \<Rightarrow> string" where
  "upper s = map char_upper s"

definition invalid_chars :: "char set" where
  "invalid_chars = {CHR ''I'', CHR ''O'', CHR ''Q''}"

text \<open>
  \<^verbatim>\<open>
  def validate_vin(vin):
      if not vin: raise ValidationError("VIN is required")
      vin = vin.strip().upper()
      if len(vin) != 17: raise ValidationError(...)
      invalid_chars = set('IOQ')
      if any(c in invalid_chars for c in vin): raise ValidationError(...)
      return vin
  \<close>
\<close>

definition validate_vin :: "string \<Rightarrow> error + string" where
  "validate_vin vin =
     (if vin = [] then Inl ValidationError
      else let vin' = upper (strip vin) in
        if length vin' \<noteq> 17 then Inl ValidationError
        else if list_ex (\<lambda>c. c \<in> invalid_chars) vin' then Inl ValidationError
        else Inr vin')"

section \<open>Record store (\<open>db/schema.py\<close>, \<open>db/db_helper.py\<close>)\<close>

text \<open>
  One record per table row, one list per table, rows in insertion (rowid) order. SQL
  \<open>INTEGER\<close> is \<open>int\<close>, \<open>TEXT\<close> is \<open>string\<close>, a nullable column is an \<open>option\<close>, and
  \<open>REAL\<close> is \<open>rat\<close>, the rational number that the stored IEEE double stands for (the
  section on numbers gives the arithmetic). Columns that no modelled operation reads (trim, colour,
  station, notes, ...) are left out. \<open>vehicles\<close> has the text primary key \<open>vin\<close> and
  SQLite's implicit integer \<open>rowid\<close>; the other tables have
  \<open>id INTEGER PRIMARY KEY AUTOINCREMENT\<close>.
\<close>

record vehicle =
  v_rowid :: int
  v_vin :: string
  v_year :: int
  v_make :: string
  v_model :: string
  v_current_mileage :: "int option"

record trip =
  t_id :: int
  t_vin :: string
  t_distance :: "rat option"
  t_date :: string

record fuel_log =
  f_id :: int
  f_vin :: string
  f_gallons :: rat
  f_price_per_gallon :: rat
  f_total_cost :: rat
  f_odometer :: int
  f_date :: string
  f_full_tank :: "int option"

record repair =
  r_id :: int
  r_vin :: string
  r_service :: string
  r_cost :: rat
  r_date :: string

record maintenance_interval =
  m_id :: int
  m_vin :: string
  m_service_type :: string
  m_interval_miles :: "int option"
  m_interval_months :: "int option"
  m_last_performed_date :: "string option"
  m_last_performed_mileage :: "int option"
  m_next_due_date :: "string option"
  m_next_due_mileage :: "int option"
  m_updated_at :: string

record mileage_entry =
  h_id :: int
  h_vin :: string
  h_mileage :: int
  h_date :: string

text \<open>
  The persistent state. \<open>seq_maintenance\<close> is the \<open>sqlite_sequence\<close> entry of
  \<open>maintenance_intervals\<close>: the largest id ever handed out by \<open>AUTOINCREMENT\<close>.
\<close>

record db =
  vehicles :: "vehicle list"
  trips :: "trip list"
  fuel_logs :: "fuel_log list"
  repairs :: "repair list"
  maintenance_intervals :: "maintenance_interval list"
  mileage_history :: "mileage_entry list"
  seq_maintenance :: int

text \<open>
  \<open>ORDER BY k ASC\<close> and \<open>ORDER BY k DESC\<close> are stable sorts of the rows in rowid
  order (SQL leaves the order of rows with equal keys open); \<open>LIMIT n\<close> keeps the first
  \<open>n\<close> rows, and all of them when \<open>n\<close> is negative.
\<close>

definition order_by_asc :: "('a \<Rightarrow> int) \<Rightarrow> 'a list \<Rightarrow> 'a list" where
  "order_by_asc k xs = sort_key k xs"



text \<open>\<open>MIN\<close> and \<open>MAX\<close> are \<open>NULL\<close> over no rows.\<close>

fun sql_min :: "int list \<Rightarrow> int option" where
  "sql_min [] = None"
| "sql_min (x # xs) = Some (fold min xs x)"

fun sql_max :: "int list \<Rightarrow> int option" where
  "sql_max [] = None"
| "sql_max (x # xs) = Some (fold max xs x)"

section \<open>Numbers\<close>

text \<open>
  A Python \<open>float\<close> and a \<open>REAL\<close> of the store is an IEEE double, modelled by the
  rational number it stands for. \<open>to_double x\<close> is the double nearest to \<open>x\<close>, a tie
  going to the even mantissa: \<open>x\<close> is scaled by a power of two so that it lies between
  \<open>2^52\<close> and \<open>2^53\<close>, rounded to an integer and scaled back. A float operation is the
  exact operation followed by \<open>to_double\<close>. Infinities, NaN and subnormal numbers are
  not modelled.
\<close>

function bit_length :: "nat \<Rightarrow> nat" where
  "bit_length n = (if n = 0 then 0 else Suc (bit_length (n div 2)))"
  by pat_completeness auto
termination
  by (relation "measure id") auto

definition round_half_even :: "rat \<Rightarrow> int" where
  "round_half_even x =
     (let f = \<lfloor>x\<rfloor>; d = x - of_int f in
      if d < 1 / 2 then f else if 1 / 2 < d then f + 1 else if even f then f else f + 1)"

definition scale2 :: "rat \<Rightarrow> int \<Rightarrow> rat" where
  "scale2 x k = (if 0 \<le> k then x * 2 ^ nat k else x / 2 ^ nat (- k))"

definition to_double :: "rat \<Rightarrow> rat" where
  "to_double x =
     (if x = 0 then 0
      else
        (let (p, q) = quotient_of \<bar>x\<bar>;
             e0 = int (bit_length (nat p)) - int (bit_length (nat q)) - 53;
             e = (if 2 ^ 53 \<le> scale2 \<bar>x\<bar> (- e0) then e0 + 1 else e0);
             m = round_half_even (scale2 \<bar>x\<bar> (- e))
         in sgn x * scale2 (of_int m) e))"

text \<open>
  Python's \<open>a + b\<close> and \<open>a / b\<close> on floats (an \<open>int\<close> operand is converted, exactly below
  \<open>2^53\<close>); the division raises \<open>ZeroDivisionError\<close> when \<open>b\<close> is zero. \<open>sum(xs)\<close> adds
  from the left, starting at 0.
\<close>

definition float_add :: "rat \<Rightarrow> rat \<Rightarrow> rat" where
  "float_add a b = to_double (a + b)"

definition py_div :: "rat \<Rightarrow> rat \<Rightarrow> error + rat" where
  "py_div a b = (if b = 0 then Inl ZeroDivisionError else Inr (to_double (a / b)))"


text \<open>
  \<open>round(x, n)\<close> on a float: the exact value of the double, rounded to \<open>n\<close> decimals, a
  tie going to the even neighbour. So \<open>round(30.15, 1)\<close> is 30.1, the double nearest to
  30.15 lying below it. The result is given as the decimal fraction, which is how the
  double that Python returns prints.
\<close>

definition py_round :: "rat \<Rightarrow> nat \<Rightarrow> rat" where
  "py_round x n = of_int (round_half_even (to_double x * 10 ^ n)) / 10 ^ n"

text \<open>
  \<open>COALESCE(SUM(column), 0)\<close> over \<open>REAL\<close> values: SQLite adds with a compensated
  summation, taken here as the exact sum rounded once; over no rows it is 0.
\<close>

definition sql_sum :: "rat list \<Rightarrow> rat" where
  "sql_sum xs = to_double (sum_list xs)"

text \<open>\<open>x or 0\<close> on a nullable integer: \<open>None\<close> and \<open>0\<close> both give \<open>0\<close>.\<close>

definition or0 :: "int option \<Rightarrow> int" where
  "or0 x = (case x of None \<Rightarrow> 0 | Some n \<Rightarrow> n)"

section \<open>Metrics engine: fuel economy\<close>











text \<open>Two full-tank entries of one vehicle: 5 gallons at 1000, 10 gallons at 1300.\<close>

definition empty_db :: db where
  "empty_db = \<lparr>vehicles = [], trips = [], fuel_logs = [], repairs = [],
     maintenance_intervals = [], mileage_history = [], seq_maintenance = 0\<rparr>"





section \<open>Metrics engine: cost per distance\<close>

text \<open>
  \<open>AnalyticsService.calculate_cost_per_mile\<close> (\<open>services/analytics_service.py\<close>). The
  sums are \<open>COALESCE(SUM(...), 0)\<close> over the rows of the vehicle; the spans are
  \<open>(MAX or 0) - (MIN or 0)\<close> over the odometers of its fuel entries and over its
  mileage history.
\<close>

definition repair_cost_sum :: "db \<Rightarrow> string \<Rightarrow> rat" where
  "repair_cost_sum s vin = sql_sum (map r_cost (filter (\<lambda>r. r_vin r = vin) (repairs s)))"

definition fuel_cost_sum :: "db \<Rightarrow> string \<Rightarrow> rat" where
  "fuel_cost_sum s vin = sql_sum (map f_total_cost (filter (\<lambda>f. f_vin f = vin) (fuel_logs s)))"

definition fuel_odometers :: "db \<Rightarrow> string \<Rightarrow> int list" where
  "fuel_odometers s vin = map f_odometer (filter (\<lambda>f. f_vin f = vin) (fuel_logs s))"

definition history_mileages :: "db \<Rightarrow> string \<Rightarrow> int list" where
  "history_mileages s vin = map h_mileage (filter (\<lambda>h. h_vin h = vin) (mileage_history s))"

definition span :: "int list \<Rightarrow> int" where
  "span xs = or0 (sql_max xs) - or0 (sql_min xs)"

text \<open>
  \<^verbatim>\<open>
  total_miles = (mileage['last'] or 0) - (mileage['first'] or 0)
  if total_miles <= 0:
      mileage = execute_query(... FROM mileage_history WHERE vin = ? ...)
      total_miles = (mileage['last'] or 0) - (mileage['first'] or 0)
  \<close>
\<close>

definition total_miles :: "db \<Rightarrow> string \<Rightarrow> int" where
  "total_miles s vin =
     (let miles = span (fuel_odometers s vin) in
      if miles \<le> 0 then span (history_mileages s vin) else miles)"

text \<open>\<open>cost / total_miles if total_miles > 0 else 0\<close>\<close>

definition per_mile :: "rat \<Rightarrow> int \<Rightarrow> error + rat" where
  "per_mile cost miles = (if 0 < miles then py_div cost (of_int miles) else Inr 0)"

text \<open>
  \<open>total_cost = costs['repair_cost'] + costs['fuel_cost']\<close>, and the local variable
  \<open>cost_per_mile\<close>, before the report rounds it.
\<close>

definition total_cost :: "db \<Rightarrow> string \<Rightarrow> rat" where
  "total_cost s vin = float_add (repair_cost_sum s vin) (fuel_cost_sum s vin)"

definition cost_per_mile :: "db \<Rightarrow> string \<Rightarrow> error + rat" where
  "cost_per_mile s vin = per_mile (total_cost s vin) (total_miles s vin)"

record cost_result =
  c_total_cost :: rat
  c_repair_cost :: rat
  c_fuel_cost :: rat
  c_total_miles :: int
  c_cost_per_mile :: rat
  c_fuel_cost_per_mile :: rat
  c_repair_cost_per_mile :: rat

definition calculate_cost_per_mile :: "db \<Rightarrow> string \<Rightarrow> error + cost_result" where
  "calculate_cost_per_mile s vin =
     (case validate_vin vin of
        Inl e \<Rightarrow> Inl e
      | Inr v \<Rightarrow>
         (case cost_per_mile s v of
            Inl e \<Rightarrow> Inl e
          | Inr cpm \<Rightarrow>
             (case per_mile (fuel_cost_sum s v) (total_miles s v) of
                Inl e \<Rightarrow> Inl e
              | Inr fpm \<Rightarrow>
                 (case per_mile (repair_cost_sum s v) (total_miles s v) of
                    Inl e \<Rightarrow> Inl e
                  | Inr rpm \<Rightarrow> Inr
                     \<lparr>c_total_cost = py_round (total_cost s v) 2,
                      c_repair_cost = py_round (repair_cost_sum s v) 2,
                      c_fuel_cost = py_round (fuel_cost_sum s v) 2,
                      c_total_miles = total_miles s v,
                      c_cost_per_mile = py_round cpm 3,
                      c_fuel_cost_per_mile = py_round fpm 3,
                      c_repair_cost_per_mile = py_round rpm 3\<rparr>))))"

text \<open>
  Two vehicles. The first has a repair of 100 and two fuel entries of 20 and 30, at
  odometers 1000 and 1300. The second has a repair of 500, no fuel entry, and a mileage
  history from 40000 to 42000.
\<close>

definition costs_db :: db where
  "costs_db = empty_db\<lparr>
     repairs :=
       [\<lparr>r_id = 1, r_vin = ''1HGCM82633A004352'', r_service = ''Brakes'',
          r_cost = 100, r_date = ''2024-08-01''\<rparr>,
        \<lparr>r_id = 2, r_vin = ''2HGCM82633A004352'', r_service = ''Wiper'',
          r_cost = 500, r_date = ''2024-08-02''\<rparr>],
     fuel_logs :=
       [\<lparr>f_id = 1, f_vin = ''1HGCM82633A004352'', f_gallons = 5, f_price_per_gallon = 4,
          f_total_cost = 20, f_odometer = 1000, f_date = ''2024-08-01'', f_full_tank = Some 1\<rparr>,
        \<lparr>f_id = 2, f_vin = ''1HGCM82633A004352'', f_gallons = 10, f_price_per_gallon = 3,
          f_total_cost = 30, f_odometer = 1300, f_date = ''2024-08-15'', f_full_tank = Some 1\<rparr>],
     mileage_history :=
       [\<lparr>h_id = 1, h_vin = ''2HGCM82633A004352'', h_mileage = 40000, h_date = ''2024-01-01''\<rparr>,
        \<lparr>h_id = 2, h_vin = ''2HGCM82633A004352'', h_mileage = 42000, h_date = ''2024-06-01''\<rparr>]\<rparr>"

section \<open>Maintenance scheduler: overdue intervals\<close>

text \<open>
  \<open>MaintenanceService.get_overdue\<close> (\<open>services/maintenance_service.py\<close>).
  \<open>get_vehicle\<close> is \<open>SELECT ... FROM vehicles WHERE vin = ?\<close> with \<open>fetch_one\<close>;
  \<open>vin\<close> is the primary key, so at most one row matches.
  \<^verbatim>\<open>
  if not vehicle or not vehicle['current_mileage']:
      return []
  current_mileage = vehicle['current_mileage']
  SELECT * FROM maintenance_intervals
  WHERE vin = ? AND next_due_mileage < ? ORDER BY next_due_mileage ASC
  \<close>
  A \<open>NULL\<close> next-due mileage fails the comparison.
\<close>

definition get_vehicle :: "db \<Rightarrow> string \<Rightarrow> vehicle option" where
  "get_vehicle s vin = find (\<lambda>x. v_vin x = vin) (vehicles s)"

definition due_before :: "int \<Rightarrow> maintenance_interval \<Rightarrow> bool" where
  "due_before current m =
     (case m_next_due_mileage m of None \<Rightarrow> False | Some d \<Rightarrow> d < current)"

definition due_key :: "maintenance_interval \<Rightarrow> int" where
  "due_key m = or0 (m_next_due_mileage m)"

definition get_overdue :: "db \<Rightarrow> string \<Rightarrow> error + maintenance_interval list" where
  "get_overdue s vin =
     (case validate_vin vin of
        Inl e \<Rightarrow> Inl e
      | Inr v \<Rightarrow>
         (case get_vehicle s v of
            None \<Rightarrow> Inr []
          | Some vehicle \<Rightarrow>
             (case v_current_mileage vehicle of
                None \<Rightarrow> Inr []
              | Some current_mileage \<Rightarrow>
                 if current_mileage = 0 then Inr []
                 else Inr (order_by_asc due_key
                   (filter (\<lambda>m. m_vin m = v \<and> due_before current_mileage m)
                      (maintenance_intervals s))))))"

text \<open>
  A vehicle with two intervals, due at 47000 and at 55000; its reading is set by
  \<open>overdue_db\<close>'s argument.
\<close>

definition overdue_db :: "int option \<Rightarrow> db" where
  "overdue_db reading = empty_db\<lparr>
     vehicles := [\<lparr>v_rowid = 1, v_vin = ''1HGCM82633A004352'', v_year = 2020,
        v_make = ''Honda'', v_model = ''Civic'', v_current_mileage = reading\<rparr>],
     maintenance_intervals :=
       [\<lparr>m_id = 1, m_vin = ''1HGCM82633A004352'', m_service_type = ''Brake Inspection'',
          m_interval_miles = Some 15000, m_interval_months = Some 12,
          m_last_performed_date = None, m_last_performed_mileage = None,
          m_next_due_date = None, m_next_due_mileage = Some 55000,
          m_updated_at = ''2024-01-01 00:00:00''\<rparr>,
        \<lparr>m_id = 2, m_vin = ''1HGCM82633A004352'', m_service_type = ''Oil Change'',
          m_interval_miles = Some 5000, m_interval_months = Some 6,
          m_last_performed_date = None, m_last_performed_mileage = None,
          m_next_due_date = None, m_next_due_mileage = Some 47000,
          m_updated_at = ''2024-01-01 00:00:00''\<rparr>],
     seq_maintenance := 2\<rparr>"

section \<open>Record store: deleting rows\<close>

text \<open>
  \<open>execute_delete(table, 'vin = ?', (vin,))\<close> of \<open>db/db_helper.py\<close>: it opens a
  connection of its own, deletes the rows, commits and returns the row count. So every
  call is a transaction by itself, and the state it returns is the persistent state.
\<close>

datatype table = Vehicles | Trips | FuelLogs | Repairs | MaintenanceIntervals | MileageHistory

definition delete_rows :: "('a \<Rightarrow> string) \<Rightarrow> string \<Rightarrow> 'a list \<Rightarrow> 'a list" where
  "delete_rows key vin rows = filter (\<lambda>r. key r \<noteq> vin) rows"

definition count_rows :: "('a \<Rightarrow> string) \<Rightarrow> string \<Rightarrow> 'a list \<Rightarrow> nat" where
  "count_rows key vin rows = length (filter (\<lambda>r. key r = vin) rows)"

fun execute_delete :: "table \<Rightarrow> string \<Rightarrow> db \<Rightarrow> nat \<times> db" where
  "execute_delete Vehicles vin s =
     (count_rows v_vin vin (vehicles s), s\<lparr>vehicles := delete_rows v_vin vin (vehicles s)\<rparr>)"
| "execute_delete Trips vin s =
     (count_rows t_vin vin (trips s), s\<lparr>trips := delete_rows t_vin vin (trips s)\<rparr>)"
| "execute_delete FuelLogs vin s =
     (count_rows f_vin vin (fuel_logs s), s\<lparr>fuel_logs := delete_rows f_vin vin (fuel_logs s)\<rparr>)"
| "execute_delete Repairs vin s =
     (count_rows r_vin vin (repairs s), s\<lparr>repairs := delete_rows r_vin vin (repairs s)\<rparr>)"
| "execute_delete MaintenanceIntervals vin s =
     (count_rows m_vin vin (maintenance_intervals s),
      s\<lparr>maintenance_intervals := delete_rows m_vin vin (maintenance_intervals s)\<rparr>)"
| "execute_delete MileageHistory vin s =
     (count_rows h_vin vin (mileage_history s),
      s\<lparr>mileage_history := delete_rows h_vin vin (mileage_history s)\<rparr>)"

text \<open>
  A mutating operation returns its result, or the exception it raised, together with
  the persistent state it leaves behind.

  \<open>BaseService.delete\<close> for \<open>VehicleService\<close> (table \<open>vehicles\<close>, primary key \<open>vin\<close>):
  \<^verbatim>\<open>
  existing = cls.get_by_id(id_value)
  if not existing: raise NotFoundError(...)
  rows = execute_delete(cls.table_name, f"{cls.primary_key} = ?", (id_value,))
  return rows > 0
  \<close>
\<close>

definition base_delete_vehicle :: "db \<Rightarrow> string \<Rightarrow> (error + bool) \<times> db" where
  "base_delete_vehicle s vin =
     (case get_vehicle s vin of
        None \<Rightarrow> (Inl NotFoundError, s)
      | Some existing \<Rightarrow>
          (let (rows, s') = execute_delete Vehicles vin s in (Inr (0 < rows), s')))"

text \<open>
  \<open>VehicleService.delete\<close> (\<open>services/vehicle_service.py\<close>):
  \<^verbatim>\<open>
  vin = validate_vin(vin)
  execute_delete('trips', 'vin = ?', (vin,))
  execute_delete('fuel_logs', 'vin = ?', (vin,))
  execute_delete('repairs', 'vin = ?', (vin,))
  execute_delete('maintenance_intervals', 'vin = ?', (vin,))
  execute_delete('mileage_history', 'vin = ?', (vin,))
  return super().delete(vin)
  \<close>
\<close>

definition vehicle_delete :: "db \<Rightarrow> string \<Rightarrow> (error + bool) \<times> db" where
  "vehicle_delete s vin =
     (case validate_vin vin of
        Inl e \<Rightarrow> (Inl e, s)
      | Inr v \<Rightarrow>
          (let s1 = snd (execute_delete Trips v s);
               s2 = snd (execute_delete FuelLogs v s1);
               s3 = snd (execute_delete Repairs v s2);
               s4 = snd (execute_delete MaintenanceIntervals v s3);
               s5 = snd (execute_delete MileageHistory v s4)
           in base_delete_vehicle s5 v))"

text \<open>
  A store with one fuel entry of a vehicle that has no row in \<open>vehicles\<close>. The tables
  that \<open>db_helper._create_tables_inline\<close> creates at start-up declare no foreign key,
  and \<open>FuelLogService.create\<close> checks the format of the identifier only, so a fuel entry
  can be logged for an identifier that was never registered.
\<close>

definition orphan_db :: db where
  "orphan_db = empty_db\<lparr>fuel_logs :=
     [\<lparr>f_id = 1, f_vin = ''1HGCM82633A004352'', f_gallons = 5, f_price_per_gallon = 3,
        f_total_cost = 15, f_odometer = 1000, f_date = ''2024-08-01'',
        f_full_tank = Some 1\<rparr>]\<rparr>"

text \<open>A vehicle with one row in each dependent table, and a fuel entry of another one.\<close>

definition garage_db :: db where
  "garage_db = (overdue_db (Some 50000))\<lparr>
     trips := [\<lparr>t_id = 1, t_vin = ''1HGCM82633A004352'', t_distance = Some 12,
        t_date = ''2024-08-02''\<rparr>],
     fuel_logs :=
       [\<lparr>f_id = 1, f_vin = ''1HGCM82633A004352'', f_gallons = 5, f_price_per_gallon = 3,
          f_total_cost = 15, f_odometer = 1000, f_date = ''2024-08-01'', f_full_tank = Some 1\<rparr>,
        \<lparr>f_id = 2, f_vin = ''2HGCM82633A004352'', f_gallons = 7, f_price_per_gallon = 3,
          f_total_cost = 21, f_odometer = 900, f_date = ''2024-08-03'', f_full_tank = Some 1\<rparr>],
     repairs := [\<lparr>r_id = 1, r_vin = ''1HGCM82633A004352'', r_service = ''Brakes'',
        r_cost = 100, r_date = ''2024-08-01''\<rparr>],
     mileage_history := [\<lparr>h_id = 1, h_vin = ''1HGCM82633A004352'', h_mileage = 50000,
        h_date = ''2024-08-01''\<rparr>]\<rparr>"

section \<open>Maintenance scheduler: seeding the default intervals\<close>

text \<open>
  \<open>DEFAULT_INTERVALS\<close> of \<open>services/maintenance_service.py\<close>, in the order of the
  dictionary: service type, miles, months.
\<close>

definition DEFAULT_INTERVALS :: "(string \<times> int \<times> int) list" where
  "DEFAULT_INTERVALS =
     [(''Oil Change'', 5000, 6),
      (''Transmission Fluid'', 60000, 48),
      (''Brake Inspection'', 25000, 24),
      (''Air Filter'', 15000, 12),
      (''Tire Rotation'', 7500, 6),
      (''Coolant Flush'', 30000, 36),
      (''Spark Plugs'', 60000, 60),
      (''Battery Check'', 25000, 24),
      (''Brake Fluid'', 30000, 24),
      (''Power Steering Fluid'', 50000, 48)]"

text \<open>
  \<open>SELECT id FROM maintenance_intervals WHERE vin = ? AND service_type = ?\<close>, first
  row; and all the rows of that answer.
\<close>

definition is_interval :: "string \<Rightarrow> string \<Rightarrow> maintenance_interval \<Rightarrow> bool" where
  "is_interval vin service_type m = (m_vin m = vin \<and> m_service_type m = service_type)"

definition get_interval :: "db \<Rightarrow> string \<Rightarrow> string \<Rightarrow> maintenance_interval option" where
  "get_interval s vin service_type = find (is_interval vin service_type) (maintenance_intervals s)"

definition rows_for :: "db \<Rightarrow> string \<Rightarrow> string \<Rightarrow> maintenance_interval list" where
  "rows_for s vin service_type = filter (is_interval vin service_type) (maintenance_intervals s)"

text \<open>
  \<open>execute_insert('maintenance_intervals', {...})\<close>: the row gets the next
  \<open>AUTOINCREMENT\<close> id (one more than the largest id ever used) and the time of the
  insertion; the call commits and returns the id. \<open>now\<close> is the store's clock,
  \<open>datetime('now')\<close>.
\<close>

definition next_id :: "db \<Rightarrow> int" where
  "next_id s = max (seq_maintenance s) (fold max (map m_id (maintenance_intervals s)) 0) + 1"

definition execute_insert_interval :: "string \<Rightarrow> maintenance_interval \<Rightarrow> db \<Rightarrow> int \<times> db" where
  "execute_insert_interval now row s =
     (next_id s,
      s\<lparr>maintenance_intervals :=
           maintenance_intervals s @ [row\<lparr>m_id := next_id s, m_updated_at := now\<rparr>],
        seq_maintenance := next_id s\<rparr>)"

text \<open>
  The row that \<open>initialize_for_vehicle\<close> inserts: the columns it does not name are
  \<open>NULL\<close>.
\<close>

definition default_row :: "string \<Rightarrow> string \<Rightarrow> int \<Rightarrow> int \<Rightarrow> int \<Rightarrow> maintenance_interval" where
  "default_row vin service_type miles months next_mileage =
     \<lparr>m_id = 0, m_vin = vin, m_service_type = service_type,
      m_interval_miles = Some miles, m_interval_months = Some months,
      m_last_performed_date = None, m_last_performed_mileage = None,
      m_next_due_date = None, m_next_due_mileage = Some next_mileage,
      m_updated_at = []\<rparr>"

text \<open>
  \<^verbatim>\<open>
  for service_type, intervals in DEFAULT_INTERVALS.items():
      existing = execute_query(... WHERE vin = ? AND service_type = ?, fetch_one=True)
      if not existing:
          next_mileage = current_mileage + intervals['miles']
          execute_insert('maintenance_intervals', {...})
          created.append(service_type)
  \<close>
  The store can refuse an insertion (\<open>sqlite3.Error\<close>: a locked database, a full disk):
  \<open>fails service_type\<close> says that the insertion for this service type raises. The
  loop then stops with the exception, and the rows inserted before stay, each insertion
  having committed.
\<close>

fun seed_defaults ::
  "(string \<Rightarrow> bool) \<Rightarrow> string \<Rightarrow> string \<Rightarrow> int \<Rightarrow> (string \<times> int \<times> int) list \<Rightarrow> db
     \<Rightarrow> error option \<times> db" where
  "seed_defaults fails now vin current_mileage [] s = (None, s)"
| "seed_defaults fails now vin current_mileage ((service_type, miles, months) # rest) s =
     (case get_interval s vin service_type of
        Some existing \<Rightarrow> seed_defaults fails now vin current_mileage rest s
      | None \<Rightarrow>
          if fails service_type then (Some StoreError, s)
          else seed_defaults fails now vin current_mileage rest
            (snd (execute_insert_interval now
               (default_row vin service_type miles months (current_mileage + miles)) s)))"

text \<open>
  \<open>MaintenanceService.get_by_vin\<close>:
  \<open>SELECT * FROM maintenance_intervals WHERE vin = ? ORDER BY next_due_mileage ASC NULLS LAST\<close>.
\<close>

definition maintenance_get_by_vin :: "db \<Rightarrow> string \<Rightarrow> error + maintenance_interval list" where
  "maintenance_get_by_vin s vin =
     (case validate_vin vin of
        Inl e \<Rightarrow> Inl e
      | Inr v \<Rightarrow>
          (let rows = filter (\<lambda>m. m_vin m = v) (maintenance_intervals s) in
           Inr (order_by_asc due_key (filter (\<lambda>m. m_next_due_mileage m \<noteq> None) rows)
                @ filter (\<lambda>m. m_next_due_mileage m = None) rows)))"

text \<open>
  \<open>MaintenanceService.initialize_for_vehicle\<close>:
  \<^verbatim>\<open>
  vin = validate_vin(vin)
  vehicle = execute_query("SELECT current_mileage FROM vehicles WHERE vin = ?", ...)
  if not vehicle: raise NotFoundError(...)
  current_mileage = vehicle['current_mileage'] or 0
  ... the loop ...
  return cls.get_by_vin(vin)
  \<close>
\<close>

definition initialize_with ::
  "(string \<Rightarrow> bool) \<Rightarrow> string \<Rightarrow> db \<Rightarrow> string \<Rightarrow> (error + maintenance_interval list) \<times> db" where
  "initialize_with fails now s vin =
     (case validate_vin vin of
        Inl e \<Rightarrow> (Inl e, s)
      | Inr v \<Rightarrow>
          (case get_vehicle s v of
             None \<Rightarrow> (Inl NotFoundError, s)
           | Some vehicle \<Rightarrow>
               (let current_mileage = or0 (v_current_mileage vehicle) in
                case seed_defaults fails now v current_mileage DEFAULT_INTERVALS s of
                  (Some e, s') \<Rightarrow> (Inl e, s')
                | (None, s') \<Rightarrow> (maintenance_get_by_vin s' v, s'))))"

text \<open>The operation on a store that accepts every insertion.\<close>

definition initialize_for_vehicle ::
  "string \<Rightarrow> db \<Rightarrow> string \<Rightarrow> (error + maintenance_interval list) \<times> db" where
  "initialize_for_vehicle now s vin = initialize_with (\<lambda>service_type. False) now s vin"

section \<open>Dates\<close>

text \<open>
  The part of Python's \<open>datetime\<close> that the services use. A date is its proleptic
  Gregorian ordinal: day 1 is 0001-01-01, day 3652059 is 9999-12-31.
\<close>

definition is_digit :: "char \<Rightarrow> bool" where
  "is_digit c = (let n = (of_char c :: nat) in 48 \<le> n \<and> n \<le> 57)"

definition digit_val :: "char \<Rightarrow> int" where
  "digit_val c = int (of_char c) - 48"

definition digit_char :: "nat \<Rightarrow> char" where
  "digit_char n = char_of (48 + n)"

function nat_to_string :: "nat \<Rightarrow> string" where
  "nat_to_string n =
     (if n < 10 then [digit_char n] else nat_to_string (n div 10) @ [digit_char (n mod 10)])"
  by pat_completeness auto
termination
  by (relation "measure id") auto

definition int_to_string :: "int \<Rightarrow> string" where
  "int_to_string i = (if i < 0 then CHR ''-'' # nat_to_string (nat (- i)) else nat_to_string (nat i))"

definition is_leap :: "int \<Rightarrow> bool" where
  "is_leap y = (y mod 4 = 0 \<and> (y mod 100 \<noteq> 0 \<or> y mod 400 = 0))"

definition days_in_month :: "int \<Rightarrow> int \<Rightarrow> int" where
  "days_in_month y m =
     (if m = 2 then (if is_leap y then 29 else 28)
      else if m = 4 \<or> m = 6 \<or> m = 9 \<or> m = 11 then 30 else 31)"

definition days_before_year :: "int \<Rightarrow> int" where
  "days_before_year y = (y - 1) * 365 + (y - 1) div 4 - (y - 1) div 100 + (y - 1) div 400"

definition days_before_month :: "int \<Rightarrow> int \<Rightarrow> int" where
  "days_before_month y m = sum_list (map (days_in_month y) [1 .. m - 1])"

definition ymd2ord :: "int \<Rightarrow> int \<Rightarrow> int \<Rightarrow> int" where
  "ymd2ord y m d = days_before_year y + days_before_month y m + d"

text \<open>
  \<open>ord2ymd\<close> follows \<open>datetime._ord2ymd\<close>: whole 400-year, 100-year, 4-year cycles
  and years, then the month from an estimate that is at most one too large.
\<close>

definition ord2ymd :: "int \<Rightarrow> int \<times> int \<times> int" where
  "ord2ymd ordinal =
     (let n0 = ordinal - 1;
          n400 = n0 div 146097; n1' = n0 mod 146097;
          n100 = n1' div 36524; n2' = n1' mod 36524;
          n4 = n2' div 1461; n3' = n2' mod 1461;
          n1 = n3' div 365; n = n3' mod 365;
          year = n400 * 400 + 1 + n100 * 100 + n4 * 4 + n1
      in if n1 = 4 \<or> n100 = 4 then (year - 1, 12, 31)
         else
           (let month = (n + 50) div 32;
                preceding = days_before_month year month
            in if n < preceding
               then (year, month - 1, n - (preceding - days_in_month year (month - 1)) + 1)
               else (year, month, n - preceding + 1)))"

text \<open>
  \<open>datetime.strptime(s, '%Y-%m-%d')\<close>. The directives are the regular expressions
  \<open>\d\d\d\d\<close>, \<open>1[0-2]|0[1-9]|[1-9]\<close> and \<open>3[0-1]|[1-2]\d|0[1-9]|[1-9]| [1-9]\<close>, the
  first alternative that matches being taken; text left over, the year 0 and a day
  beyond the end of the month raise \<open>ValueError\<close>. The result is the ordinal of the date.
\<close>

fun parse_year :: "string \<Rightarrow> (int \<times> string) option" where
  "parse_year (a # b # c # d # rest) =
     (if is_digit a \<and> is_digit b \<and> is_digit c \<and> is_digit d
      then Some (1000 * digit_val a + 100 * digit_val b + 10 * digit_val c + digit_val d, rest)
      else None)"
| "parse_year _ = None"

definition is_digit19 :: "char \<Rightarrow> bool" where
  "is_digit19 c = (is_digit c \<and> c \<noteq> CHR ''0'')"

fun parse_month :: "string \<Rightarrow> (int \<times> string) option" where
  "parse_month (a # b # rest) =
     (if a = CHR ''1'' \<and> (b = CHR ''0'' \<or> b = CHR ''1'' \<or> b = CHR ''2'')
        then Some (10 + digit_val b, rest)
      else if a = CHR ''0'' \<and> is_digit19 b then Some (digit_val b, rest)
      else if is_digit19 a then Some (digit_val a, b # rest)
      else None)"
| "parse_month [a] = (if is_digit19 a then Some (digit_val a, []) else None)"
| "parse_month [] = None"

fun parse_day :: "string \<Rightarrow> (int \<times> string) option" where
  "parse_day (a # b # rest) =
     (if a = CHR ''3'' \<and> (b = CHR ''0'' \<or> b = CHR ''1'') then Some (30 + digit_val b, rest)
      else if (a = CHR ''1'' \<or> a = CHR ''2'') \<and> is_digit b
        then Some (10 * digit_val a + digit_val b, rest)
      else if a = CHR ''0'' \<and> is_digit19 b then Some (digit_val b, rest)
      else if is_digit19 a then Some (digit_val a, b # rest)
      else if a = CHR '' '' \<and> is_digit19 b then Some (digit_val b, rest)
      else None)"
| "parse_day [a] = (if is_digit19 a then Some (digit_val a, []) else None)"
| "parse_day [] = None"

fun expect_dash :: "string \<Rightarrow> string option" where
  "expect_dash (c # rest) = (if c = CHR ''-'' then Some rest else None)"
| "expect_dash [] = None"

definition strptime :: "string \<Rightarrow> error + int" where
  "strptime s =
     (case parse_year s of
        None \<Rightarrow> Inl ValueError
      | Some (y, s1) \<Rightarrow>
     (case expect_dash s1 of
        None \<Rightarrow> Inl ValueError
      | Some s2 \<Rightarrow>
     (case parse_month s2 of
        None \<Rightarrow> Inl ValueError
      | Some (m, s3) \<Rightarrow>
     (case expect_dash s3 of
        None \<Rightarrow> Inl ValueError
      | Some s4 \<Rightarrow>
     (case parse_day s4 of
        None \<Rightarrow> Inl ValueError
      | Some (d, s5) \<Rightarrow>
          if s5 \<noteq> [] then Inl ValueError
          else if y < 1 then Inl ValueError
          else if days_in_month y m < d then Inl ValueError
          else Inr (ymd2ord y m d))))))"

text \<open>
  \<open>d.strftime('%Y-%m-%d')\<close>: month and day take two digits, the year is not padded
  (the C library's \<open>%Y\<close>).
\<close>

definition pad2 :: "int \<Rightarrow> string" where
  "pad2 n = (if n < 10 then CHR ''0'' # int_to_string n else int_to_string n)"

definition strftime :: "int \<Rightarrow> string" where
  "strftime ordinal =
     (case ord2ymd ordinal of (y, m, d) \<Rightarrow> int_to_string y @ ''-'' @ pad2 m @ ''-'' @ pad2 d)"

text \<open>\<open>date + timedelta(days=n)\<close> raises \<open>OverflowError\<close> outside the years 1 to 9999.\<close>

definition add_days :: "int \<Rightarrow> int \<Rightarrow> error + int" where
  "add_days ordinal days =
     (if ordinal + days < 1 \<or> 3652059 < ordinal + days then Inl OverflowError
      else Inr (ordinal + days))"

text \<open>
  \<^verbatim>\<open>
  def validate_date(date_str):
      if not date_str: raise ValidationError("Date is required")
      try:
          datetime.strptime(date_str, '%Y-%m-%d')
          return date_str
      except ValueError:
          raise ValidationError("Date must be in YYYY-MM-DD format")
  \<close>
\<close>

definition validate_date :: "string \<Rightarrow> error + string" where
  "validate_date date_str =
     (if date_str = [] then Inl ValidationError
      else case strptime date_str of Inl e \<Rightarrow> Inl ValidationError | Inr d \<Rightarrow> Inr date_str)"

section \<open>Maintenance scheduler: recording a service\<close>

text \<open>Python's truth value of a nullable integer: \<open>None\<close> and \<open>0\<close> are false.\<close>

definition truthy :: "int option \<Rightarrow> bool" where
  "truthy x = (case x of None \<Rightarrow> False | Some n \<Rightarrow> n \<noteq> 0)"

text \<open>
  \<open>BaseService.update\<close> for \<open>MaintenanceService\<close>, on the dictionary that
  \<open>record_service\<close> passes: its four keys are allowed fields, so the filtered
  dictionary is not empty. \<open>execute_update\<close> sets the columns and \<open>updated_at\<close> on the
  rows with the id, and commits.
  \<^verbatim>\<open>
  existing = cls.get_by_id(id_value)
  if not existing: raise NotFoundError(...)
  filtered = cls.filter_allowed(data)
  if not filtered: return existing
  execute_update(cls.table_name, filtered, f"{cls.primary_key} = ?", (id_value,))
  return cls.get_by_id(id_value)
  \<close>
\<close>

definition maintenance_get_by_id :: "db \<Rightarrow> int \<Rightarrow> maintenance_interval option" where
  "maintenance_get_by_id s i = find (\<lambda>m. m_id m = i) (maintenance_intervals s)"

definition set_service_fields ::
  "string \<Rightarrow> string \<Rightarrow> int option \<Rightarrow> string option \<Rightarrow> int option
     \<Rightarrow> maintenance_interval \<Rightarrow> maintenance_interval" where
  "set_service_fields now date mileage next_date next_mileage m =
     m\<lparr>m_last_performed_date := Some date, m_last_performed_mileage := mileage,
       m_next_due_date := next_date, m_next_due_mileage := next_mileage,
       m_updated_at := now\<rparr>"

definition update_service ::
  "string \<Rightarrow> db \<Rightarrow> int \<Rightarrow> string \<Rightarrow> int option \<Rightarrow> string option \<Rightarrow> int option
     \<Rightarrow> (error + maintenance_interval option) \<times> db" where
  "update_service now s i date mileage next_date next_mileage =
     (case maintenance_get_by_id s i of
        None \<Rightarrow> (Inl NotFoundError, s)
      | Some existing \<Rightarrow>
          (let s' = s\<lparr>maintenance_intervals :=
                 map (\<lambda>m. if m_id m = i
                        then set_service_fields now date mileage next_date next_mileage m
                        else m)
                   (maintenance_intervals s)\<rparr>
           in (Inr (maintenance_get_by_id s' i), s')))"

text \<open>
  \<open>MaintenanceService.record_service(vin, service_type, date=None, mileage=None)\<close>.
  \<open>today\<close> is \<open>datetime.now().strftime('%Y-%m-%d')\<close>, \<open>now\<close> the store's clock.
  \<^verbatim>\<open>
  vin = validate_vin(vin)
  if date: date = validate_date(date)
  else:    date = datetime.now().strftime('%Y-%m-%d')
  interval = execute_query(... WHERE vin = ? AND service_type = ?, fetch_one=True)
  if not interval: raise NotFoundError(...)
  if mileage is None:
      vehicle = execute_query("SELECT current_mileage FROM vehicles WHERE vin = ?", ...)
      mileage = vehicle['current_mileage'] if vehicle else 0
  else:
      mileage = int(validate_positive_number(mileage, 'Mileage'))
  next_mileage = None
  next_date = None
  if interval['interval_miles']:
      next_mileage = mileage + interval['interval_miles']
  if interval['interval_months']:
      next_date = (datetime.strptime(date, '%Y-%m-%d') +
                   timedelta(days=interval['interval_months'] * 30)).strftime('%Y-%m-%d')
  return cls.update(interval['id'], {...})
  \<close>
  A \<open>NULL\<close> current mileage taken from the vehicle makes the addition raise
  \<open>TypeError\<close>.
\<close>

definition service_date :: "string \<Rightarrow> string option \<Rightarrow> error + string" where
  "service_date today date =
     (case date of
        None \<Rightarrow> Inr today
      | Some d \<Rightarrow> if d = [] then Inr today else validate_date d)"

definition service_mileage :: "db \<Rightarrow> string \<Rightarrow> int option \<Rightarrow> error + int option" where
  "service_mileage s vin mileage =
     (case mileage of
        None \<Rightarrow>
          (case get_vehicle s vin of
             None \<Rightarrow> Inr (Some 0)
           | Some vehicle \<Rightarrow> Inr (v_current_mileage vehicle))
      | Some m \<Rightarrow> if m < 0 then Inl ValidationError else Inr (Some m))"

definition next_due_mileage :: "maintenance_interval \<Rightarrow> int option \<Rightarrow> error + int option" where
  "next_due_mileage interval mileage =
     (if truthy (m_interval_miles interval) then
        (case mileage of
           None \<Rightarrow> Inl TypeError
         | Some m \<Rightarrow> Inr (Some (m + or0 (m_interval_miles interval))))
      else Inr None)"

definition next_due_date :: "maintenance_interval \<Rightarrow> string \<Rightarrow> error + string option" where
  "next_due_date interval date =
     (if truthy (m_interval_months interval) then
        (case strptime date of
           Inl e \<Rightarrow> Inl e
         | Inr d \<Rightarrow>
             (case add_days d (or0 (m_interval_months interval) * 30) of
                Inl e \<Rightarrow> Inl e
              | Inr d' \<Rightarrow> Inr (Some (strftime d'))))
      else Inr None)"

definition record_service ::
  "string \<Rightarrow> string \<Rightarrow> db \<Rightarrow> string \<Rightarrow> string \<Rightarrow> string option \<Rightarrow> int option
     \<Rightarrow> (error + maintenance_interval option) \<times> db" where
  "record_service today now s vin service_type date mileage =
     (case validate_vin vin of
        Inl e \<Rightarrow> (Inl e, s)
      | Inr v \<Rightarrow>
     (case service_date today date of
        Inl e \<Rightarrow> (Inl e, s)
      | Inr date' \<Rightarrow>
     (case get_interval s v service_type of
        None \<Rightarrow> (Inl NotFoundError, s)
      | Some interval \<Rightarrow>
     (case service_mileage s v mileage of
        Inl e \<Rightarrow> (Inl e, s)
      | Inr mileage' \<Rightarrow>
     (case next_due_mileage interval mileage' of
        Inl e \<Rightarrow> (Inl e, s)
      | Inr next_mileage \<Rightarrow>
     (case next_due_date interval date' of
        Inl e \<Rightarrow> (Inl e, s)
      | Inr next_date \<Rightarrow>
          update_service now s (m_id interval) date' mileage' next_date next_mileage))))))"

section \<open>Creating a vehicle\<close>

text \<open>
  The request body of \<open>VehicleService.create\<close>. \<open>d_vin\<close> is \<open>data.get('vin', '')\<close>;
  a key that is absent or \<open>null\<close> is \<open>None\<close>; for \<open>current_mileage\<close>, \<open>None\<close> is the
  absent key (the column then takes its default 0) and \<open>Some None\<close> the \<open>null\<close>.
\<close>

record vehicle_data =
  d_vin :: string
  d_year :: "int option"
  d_make :: "string option"
  d_model :: "string option"
  d_current_mileage :: "int option option"

text \<open>
  \<open>execute_insert('vehicles', filtered)\<close> returns \<open>cursor.lastrowid\<close>. \<open>vehicles\<close> has
  the text primary key \<open>vin\<close>, so the id returned is SQLite's integer rowid of the new
  row: one more than the largest rowid in the table.
\<close>

definition next_rowid :: "db \<Rightarrow> int" where
  "next_rowid s = fold max (map v_rowid (vehicles s)) 0 + 1"

definition execute_insert_vehicle :: "vehicle \<Rightarrow> db \<Rightarrow> int \<times> db" where
  "execute_insert_vehicle row s =
     (next_rowid s, s\<lparr>vehicles := vehicles s @ [row\<lparr>v_rowid := next_rowid s\<rparr>]\<rparr>)"

text \<open>
  \<open>cls.get_by_id(new_id)\<close> with that integer: \<open>SELECT * FROM vehicles WHERE vin = ?\<close>.
  The column has text affinity, so the integer is compared as its decimal text.
\<close>

definition get_vehicle_by_int :: "db \<Rightarrow> int \<Rightarrow> vehicle option" where
  "get_vehicle_by_int s i = get_vehicle s (int_to_string i)"

text \<open>
  \<open>BaseService.create\<close> for \<open>VehicleService\<close>:
  \<^verbatim>\<open>
  cls.validate_required(data)          # vin, year, make, model
  filtered = cls.filter_allowed(data)
  new_id = execute_insert(cls.table_name, filtered)
  return cls.get_by_id(new_id)
  \<close>
\<close>

definition base_create_vehicle ::
  "db \<Rightarrow> string \<Rightarrow> vehicle_data \<Rightarrow> int option option \<Rightarrow> (error + vehicle option) \<times> db" where
  "base_create_vehicle s vin data mileage =
     (case (d_year data, d_make data, d_model data) of
        (Some year', Some make', Some model') \<Rightarrow>
          (let row = \<lparr>v_rowid = 0, v_vin = vin, v_year = year', v_make = make', v_model = model',
                 v_current_mileage = (case mileage of None \<Rightarrow> Some 0 | Some m \<Rightarrow> m)\<rparr>;
               (new_id, s') = execute_insert_vehicle row s
           in (Inr (get_vehicle_by_int s' new_id), s'))
      | _ \<Rightarrow> (Inl ValidationError, s))"

text \<open>
  \<open>VehicleService.create\<close> (\<open>services/vehicle_service.py\<close>):
  \<^verbatim>\<open>
  data['vin'] = validate_vin(data.get('vin', ''))
  year = data.get('year')
  if not year or not (1900 <= int(year) <= 2100): raise ValidationError(...)
  if cls.exists(data['vin']): raise ValidationError(...)
  if 'current_mileage' in data and data['current_mileage'] is not None:
      data['current_mileage'] = int(validate_positive_number(data['current_mileage'], 'Mileage'))
  vehicle = super().create(data)
  try:
      MaintenanceService.initialize_for_vehicle(data['vin'])
  except Exception:
      pass
  return vehicle
  \<close>
  \<open>fails\<close> is the store refusing insertions into \<open>maintenance_intervals\<close>, as in
  \<open>seed_defaults\<close>.
\<close>

definition vehicle_create ::
  "(string \<Rightarrow> bool) \<Rightarrow> string \<Rightarrow> db \<Rightarrow> vehicle_data \<Rightarrow> (error + vehicle option) \<times> db" where
  "vehicle_create fails now s data =
     (case validate_vin (d_vin data) of
        Inl e \<Rightarrow> (Inl e, s)
      | Inr v \<Rightarrow>
          if \<not> truthy (d_year data) \<or> \<not> (1900 \<le> or0 (d_year data) \<and> or0 (d_year data) \<le> 2100)
            then (Inl ValidationError, s)
          else if get_vehicle s v \<noteq> None then (Inl ValidationError, s)
          else if (case d_current_mileage data of Some (Some m) \<Rightarrow> m < 0 | _ \<Rightarrow> False)
            then (Inl ValidationError, s)
          else
            (case base_create_vehicle s v data (d_current_mileage data) of
               (Inl e, s') \<Rightarrow> (Inl e, s')
             | (Inr vehicle, s') \<Rightarrow>
                 (case initialize_with fails now s' v of
                    (Inl e, s'') \<Rightarrow> (Inr vehicle, s'')
                  | (Inr rows, s'') \<Rightarrow> (Inr vehicle, s''))))"

text \<open>A request for a Honda Civic of 2020 at 45000 miles.\<close>

definition civic :: vehicle_data where
  "civic = \<lparr>d_vin = ''1hgcm82633a004352'', d_year = Some 2020, d_make = Some ''Honda'',
     d_model = Some ''Civic'', d_current_mileage = Some (Some 45000)\<rparr>"

text \<open>The row that the request stores in the empty table.\<close>

definition civic_row :: vehicle where
  "civic_row = \<lparr>v_rowid = 1, v_vin = ''1HGCM82633A004352'', v_year = 2020,
     v_make = ''Honda'', v_model = ''Civic'', v_current_mileage = Some 45000\<rparr>"

section \<open>Properties of the validation layer\<close>

lemma strip_Nil: "strip [] = []"
  by (simp add: strip_def)

text \<open>
  Claim C9. Let \<open>t\<close> be the input trimmed and uppercased. When \<open>t\<close> has exactly 17
  characters, none of them I, O or Q, identifier validation returns \<open>t\<close>; when \<open>t\<close> has
  another length or holds an I, O or Q, validation fails with \<open>ValidationError\<close> (the
  spec's InvalidInput).
\<close>

theorem validate_vin_spec:
  "(length (upper (strip vin)) = 17 \<and> set (upper (strip vin)) \<inter> invalid_chars = {}
      \<longrightarrow> validate_vin vin = Inr (upper (strip vin)))
   \<and> (length (upper (strip vin)) \<noteq> 17 \<or> set (upper (strip vin)) \<inter> invalid_chars \<noteq> {}
      \<longrightarrow> validate_vin vin = Inl ValidationError)"
proof (cases "vin = []")
  case True
  then show ?thesis
    by (simp add: validate_vin_def strip_Nil upper_def)
next
  case False
  have ex: "list_ex (\<lambda>c. c \<in> invalid_chars) xs \<longleftrightarrow> set xs \<inter> invalid_chars \<noteq> {}" for xs
    by (auto simp: list_ex_iff)
  from False show ?thesis
    by (simp add: validate_vin_def Let_def ex)
qed

theorem validate_vin_spec_witness:
  "validate_vin '' 1hgcm82633a004352  '' = Inr ''1HGCM82633A004352''
   \<and> validate_vin ''1HGCM82633A00435'' = Inl ValidationError
   \<and> validate_vin ''1HGCM8263oA004352'' = Inl ValidationError"
proof -
  have a: "upper (strip '' 1hgcm82633a004352  '') = ''1HGCM82633A004352''"
    by code_simp
  have b: "upper (strip ''1HGCM82633A00435'') = ''1HGCM82633A00435''"
    by code_simp
  have c: "upper (strip ''1HGCM8263oA004352'') = ''1HGCM8263OA004352''"
    by code_simp
  show ?thesis
    using validate_vin_spec [of "'' 1hgcm82633a004352  ''"]
      validate_vin_spec [of "''1HGCM82633A00435''"]
      validate_vin_spec [of "''1HGCM8263oA004352''"]
    by (simp add: a b c invalid_chars_def)
qed

text \<open>A validated identifier passes validation again, unchanged.\<close>

lemma is_space_char_upper: "is_space (char_upper c) = is_space c"
proof -
  have "(of_char (char_of (of_char c - 32 :: nat)) :: nat) = of_char c - 32"
    if "97 \<le> (of_char c :: nat)" "(of_char c :: nat) \<le> 122"
    using that by simp
  then show ?thesis
    by (auto simp: is_space_def char_upper_def Let_def)
qed

lemma char_upper_idem: "char_upper (char_upper c) = char_upper c"
proof -
  have "(of_char (char_of (of_char c - 32 :: nat)) :: nat) = of_char c - 32"
    if "97 \<le> (of_char c :: nat)" "(of_char c :: nat) \<le> 122"
    using that by simp
  then show ?thesis
    by (auto simp: char_upper_def Let_def)
qed

lemma dropWhile_noop: "xs = [] \<or> \<not> P (hd xs) \<Longrightarrow> dropWhile P xs = xs"
  by (cases xs) auto

lemma strip_idem: "strip (strip s) = strip s"
proof -
  let ?u = "dropWhile is_space s"
  let ?w = "dropWhile is_space (rev ?u)"
  have w: "dropWhile is_space ?w = ?w"
    by (rule dropWhile_idem)
  have "rev ?w = [] \<or> \<not> is_space (hd (rev ?w))"
  proof (cases "?w = []")
    case True
    then show ?thesis by simp
  next
    case False
    have "rev ?u = takeWhile is_space (rev ?u) @ ?w"
      by simp
    then have "last (rev ?u) = last ?w"
      using False by (metis last_appendR)
    moreover have "?u \<noteq> []"
    proof
      assume "?u = []"
      then have "?w = []" by (metis dropWhile.simps(1) rev.simps(1))
      with False show False by blast
    qed
    ultimately have "hd ?u = last ?w"
      by (simp add: last_rev)
    moreover have "\<not> is_space (hd ?u)"
      using \<open>?u \<noteq> []\<close> by (rule hd_dropWhile)
    ultimately show ?thesis
      using False by (simp add: hd_rev)
  qed
  then have "dropWhile is_space (rev ?w) = rev ?w"
    by (rule dropWhile_noop)
  then show ?thesis
    by (simp add: strip_def w)
qed

lemma strip_upper: "strip (upper s) = upper (strip s)"
proof -
  have c: "is_space \<circ> char_upper = is_space"
    by (rule ext) (simp add: is_space_char_upper)
  have d: "dropWhile is_space (map char_upper xs) = map char_upper (dropWhile is_space xs)" for xs
    by (simp add: dropWhile_map c)
  show ?thesis
    by (simp add: strip_def upper_def d rev_map)
qed

lemma upper_idem: "upper (upper s) = upper s"
  by (simp add: upper_def char_upper_idem)

lemma validate_vin_idem:
  assumes "validate_vin vin = Inr v"
  shows "validate_vin v = Inr v"
proof -
  from assms have v: "v = upper (strip vin)" and len: "length v = 17"
    and ok: "\<not> list_ex (\<lambda>c. c \<in> invalid_chars) v"
    by (auto simp: validate_vin_def Let_def split: if_splits)
  have "upper (strip v) = v"
    by (simp add: v strip_upper strip_idem upper_idem)
  moreover from len have "v \<noteq> []" by auto
  ultimately show ?thesis
    using len ok by (simp add: validate_vin_def)
qed

text \<open>Facts about the example stores and identifiers.\<close>

lemmas example_dbs = empty_db_def overdue_db_def garage_db_def orphan_db_def

lemma example_vin: "validate_vin ''1HGCM82633A004352'' = Inr ''1HGCM82633A004352''"
  by code_simp

lemma example_vin2: "validate_vin ''2HGCM82633A004352'' = Inr ''2HGCM82633A004352''"
  by code_simp

section \<open>Properties of the float model\<close>

text \<open>
  Two roundings where the double differs from the decimal fraction it is read from.
  \<open>603 / 20\<close> is the double just below 30.15, so \<open>round(603 / 20, 1)\<close> is 30.1;
  \<open>1 / 2000\<close> is the double just above 0.0005, so \<open>round(1 / 2000, 3)\<close> is 0.001.
\<close>

lemma round_below_tie: "py_round (603 / 20) 1 = 301 / 10"
  by code_simp

lemma bit_length_examples: "bit_length (Suc 0) = 1" "bit_length 2000 = 11"
  by code_simp+

lemma quotient_of_example: "quotient_of (1 / 2000 :: rat) = (1, 2000)"
  by code_simp

lemma floor_examples:
  "\<lfloor>576460752303423488 / 125 :: rat\<rfloor> = 4611686018427387"
  "\<lfloor>144115188075855875 / 288230376151711744 :: rat\<rfloor> = 0"
  by (rule floor_unique, simp, simp)+

lemma to_double_above_tie: "to_double (1 / 2000) = 1152921504606847 / 2305843009213693952"
  using bit_length_examples quotient_of_example
  by (simp add: to_double_def scale2_def round_half_even_def Let_def floor_examples)

lemma round_above_tie: "py_round (1 / 2000) 3 = 1 / 1000"
  by (simp add: py_round_def to_double_above_tie round_half_even_def Let_def floor_examples)

section \<open>Properties of the fuel-economy calculation\<close>





















section \<open>Properties of the cost-per-distance calculation\<close>

lemma fold_max_Max: "fold max xs (x::int) = Max (set (x # xs))"
  by (rule Max.set_eq_fold [symmetric])

lemma fold_min_Min: "fold min xs (x::int) = Min (set (x # xs))"
  by (rule Min.set_eq_fold [symmetric])

lemma span_eq: "xs \<noteq> [] \<Longrightarrow> span xs = Max (set xs) - Min (set xs)"
proof (cases xs)
  case Nil
  assume "xs \<noteq> []"
  with Nil show ?thesis by simp
next
  case (Cons y ys)
  then show ?thesis
    by (simp only: span_def sql_max.simps sql_min.simps or0_def option.case
        fold_max_Max fold_min_Min)
qed

lemma span_Nil: "span [] = 0"
  by (simp add: span_def or0_def)

lemma span_cases: "span xs = (if xs = [] then 0 else Max (set xs) - Min (set xs))"
  by (simp add: span_eq span_Nil)

lemma per_mile_eq: "per_mile c m = Inr (if 0 < m then to_double (c / of_int m) else 0)"
  by (simp add: per_mile_def py_div_def)

text \<open>
  Claim C4. For a valid identifier \<open>v\<close>, the total cost is the sum of the costs of the
  rows of \<open>repairs\<close> with that identifier plus the sum of the total costs of the rows of
  \<open>fuel_logs\<close> with it. The distance is the largest minus the smallest odometer over
  those rows of \<open>fuel_logs\<close> and, when that is not positive, the largest minus the
  smallest mileage over the rows of \<open>mileage_history\<close> with the identifier (0 over no
  rows). The cost per distance is the total cost divided by the distance, and 0 when
  the distance is not positive. Sums and quotient are those of float arithmetic; the
  calculation never fails, and its report carries the distance and the cost per
  distance rounded to three decimals.
\<close>

theorem cost_per_mile_spec:
  assumes "validate_vin vin = Inr v"
  shows "let repair_costs = map r_cost (filter (\<lambda>r. r_vin r = v) (repairs s));
             fuel_costs = map f_total_cost (filter (\<lambda>f. f_vin f = v) (fuel_logs s));
             odometers = map f_odometer (filter (\<lambda>f. f_vin f = v) (fuel_logs s));
             mileages = map h_mileage (filter (\<lambda>h. h_vin h = v) (mileage_history s));
             fuel_span = (if odometers = [] then 0 else Max (set odometers) - Min (set odometers));
             history_span = (if mileages = [] then 0 else Max (set mileages) - Min (set mileages));
             distance = (if 0 < fuel_span then fuel_span else history_span);
             cost = to_double (to_double (sum_list repair_costs) + to_double (sum_list fuel_costs));
             per_distance = (if 0 < distance then to_double (cost / of_int distance) else 0)
         in total_cost s v = cost
          \<and> total_miles s v = distance
          \<and> cost_per_mile s v = Inr per_distance
          \<and> (\<exists>r. calculate_cost_per_mile s vin = Inr r
                \<and> c_total_miles r = distance
                \<and> c_cost_per_mile r = py_round per_distance 3)"
proof -
  have c: "total_cost s v = to_double
      (to_double (sum_list (map r_cost (filter (\<lambda>r. r_vin r = v) (repairs s))))
       + to_double (sum_list (map f_total_cost (filter (\<lambda>f. f_vin f = v) (fuel_logs s)))))"
    by (simp add: total_cost_def float_add_def repair_cost_sum_def fuel_cost_sum_def sql_sum_def)
  have m: "total_miles s v =
      (if 0 < span (fuel_odometers s v) then span (fuel_odometers s v)
       else span (history_mileages s v))"
    by (simp add: total_miles_def Let_def)
  have r: "\<exists>r. calculate_cost_per_mile s vin = Inr r
      \<and> c_total_miles r = total_miles s v
      \<and> c_cost_per_mile r =
           py_round (if 0 < total_miles s v
             then to_double (total_cost s v / of_int (total_miles s v)) else 0) 3"
    using assms by (simp add: calculate_cost_per_mile_def cost_per_mile_def per_mile_eq)
  have p: "cost_per_mile s v = Inr (if 0 < total_miles s v
             then to_double (total_cost s v / of_int (total_miles s v)) else 0)"
    by (simp add: cost_per_mile_def per_mile_eq)
  show ?thesis
    unfolding Let_def
    using r p
    by (simp only: c [symmetric] m span_cases fuel_odometers_def history_mileages_def)
qed

lemma to_double_0: "to_double 0 = 0"
  by (simp add: to_double_def)

lemma to_double_examples:
  "to_double 100 = 100" "to_double 50 = 50" "to_double 150 = 150" "to_double 500 = 500"
  "to_double (1 / 2) = 1 / 2" "to_double (1 / 4) = 1 / 4"
  by code_simp+

lemma py_round_examples: "py_round (1 / 2) 3 = 1 / 2" "py_round (1 / 4) 3 = 1 / 4"
  by code_simp+

text \<open>
  On the store of the two vehicles, the first has the fuel span 1300 - 1000 and the cost
  per distance 150 / 300; the second, without fuel entries, falls back to its mileage
  history, 42000 - 40000, and has 500 / 2000. Neither reads the other's rows.
\<close>

theorem cost_per_mile_spec_witness:
  "cost_per_mile costs_db ''1HGCM82633A004352'' = Inr (150 / 300)
   \<and> (\<exists>r. calculate_cost_per_mile costs_db ''1HGCM82633A004352'' = Inr r
         \<and> c_total_miles r = 1300 - 1000 \<and> c_cost_per_mile r = 1 / 2)
   \<and> cost_per_mile costs_db ''2HGCM82633A004352'' = Inr (500 / 2000)
   \<and> (\<exists>r. calculate_cost_per_mile costs_db ''2HGCM82633A004352'' = Inr r
         \<and> c_total_miles r = 42000 - 40000 \<and> c_cost_per_mile r = 1 / 4)"
proof -
  have a: "cost_per_mile costs_db ''1HGCM82633A004352'' = Inr (150 / 300)
   \<and> (\<exists>r. calculate_cost_per_mile costs_db ''1HGCM82633A004352'' = Inr r
         \<and> c_total_miles r = 1300 - 1000 \<and> c_cost_per_mile r = 1 / 2)"
    using cost_per_mile_spec [OF example_vin, where s = costs_db]
    by (simp add: Let_def costs_db_def empty_db_def to_double_examples py_round_examples)
  have b: "cost_per_mile costs_db ''2HGCM82633A004352'' = Inr (500 / 2000)
   \<and> (\<exists>r. calculate_cost_per_mile costs_db ''2HGCM82633A004352'' = Inr r
         \<and> c_total_miles r = 42000 - 40000 \<and> c_cost_per_mile r = 1 / 4)"
    using cost_per_mile_spec [OF example_vin2, where s = costs_db]
    by (simp add: Let_def costs_db_def empty_db_def to_double_examples py_round_examples
        to_double_0)
  show ?thesis
    using a b by simp
qed

section \<open>Properties of the overdue query\<close>

text \<open>
  Claim C5. For a valid identifier, \<open>get_overdue\<close> returns the empty list when the
  vehicle is absent or its current mileage is \<open>NULL\<close> or 0, whatever the intervals are.
  Otherwise it returns exactly the intervals of the vehicle whose next-due mileage is
  strictly below the current mileage, each once, by ascending next-due mileage.
\<close>

theorem get_overdue_spec:
  assumes "validate_vin vin = Inr v"
  shows "(get_vehicle s v = None
          \<or> (\<exists>x. get_vehicle s v = Some x
                \<and> (v_current_mileage x = None \<or> v_current_mileage x = Some 0))
        \<longrightarrow> get_overdue s vin = Inr [])
    \<and> (\<forall>x current. get_vehicle s v = Some x \<and> v_current_mileage x = Some current
          \<and> current \<noteq> 0 \<longrightarrow>
        (\<exists>rows. get_overdue s vin = Inr rows
          \<and> set rows = {m \<in> set (maintenance_intervals s).
                m_vin m = v \<and> (\<exists>d. m_next_due_mileage m = Some d \<and> d < current)}
          \<and> length rows = length (filter (\<lambda>m. m_vin m = v
                \<and> (\<exists>d. m_next_due_mileage m = Some d \<and> d < current)) (maintenance_intervals s))
          \<and> sorted (map due_key rows)))"
proof -
  have db: "due_before c m \<longleftrightarrow> (\<exists>d. m_next_due_mileage m = Some d \<and> d < c)" for c m
    by (simp add: due_before_def split: option.splits)
  show ?thesis
    using assms
    by (auto simp: get_overdue_def order_by_asc_def db)
qed

theorem get_overdue_spec_witness:
  "get_overdue (overdue_db (Some 0)) ''1HGCM82633A004352'' = Inr []
   \<and> get_overdue (overdue_db None) ''1HGCM82633A004352'' = Inr []
   \<and> get_overdue empty_db ''1HGCM82633A004352'' = Inr []
   \<and> (\<exists>rows. get_overdue (overdue_db (Some 50000)) ''1HGCM82633A004352'' = Inr rows
        \<and> set rows = {m \<in> set (maintenance_intervals (overdue_db (Some 50000))).
              m_vin m = ''1HGCM82633A004352''
              \<and> (\<exists>d. m_next_due_mileage m = Some d \<and> d < 50000)})
   \<and> map m_service_type (projr (get_overdue (overdue_db (Some 50000)) ''1HGCM82633A004352''))
        = [''Oil Change'']"
proof -
  have v: "validate_vin ''1HGCM82633A004352'' = Inr ''1HGCM82633A004352''"
    by code_simp
  have g: "get_vehicle (overdue_db r) ''1HGCM82633A004352'' =
    Some \<lparr>v_rowid = 1, v_vin = ''1HGCM82633A004352'', v_year = 2020,
      v_make = ''Honda'', v_model = ''Civic'', v_current_mileage = r\<rparr>" for r
    by (simp add: get_vehicle_def overdue_db_def empty_db_def)
  have e: "get_vehicle empty_db ''1HGCM82633A004352'' = None"
    by (simp add: get_vehicle_def empty_db_def)
  have n: "map m_service_type (projr (get_overdue (overdue_db (Some 50000)) ''1HGCM82633A004352''))
        = [''Oil Change'']"
    by code_simp
  show ?thesis
    using get_overdue_spec [OF v, where s = "overdue_db (Some 0)"]
      get_overdue_spec [OF v, where s = "overdue_db None"]
      get_overdue_spec [OF v, where s = empty_db]
      get_overdue_spec [OF v, where s = "overdue_db (Some 50000)"]
    by (simp add: g e n) blast
qed

section \<open>Properties of vehicle deletion\<close>

text \<open>
  Claim C8. Deleting an existing vehicle succeeds and leaves no row bearing its
  identifier in \<open>vehicles\<close>, \<open>trips\<close>, \<open>fuel_logs\<close>, \<open>repairs\<close>,
  \<open>maintenance_intervals\<close> and \<open>mileage_history\<close>; the rows of other vehicles stay as
  they were.
\<close>

theorem vehicle_delete_cascades:
  assumes "validate_vin vin = Inr v" and "get_vehicle s v = Some x"
  shows "\<exists>s'. vehicle_delete s vin = (Inr True, s')
    \<and> get_vehicle s' v = None
    \<and> (\<forall>r \<in> set (vehicles s'). v_vin r \<noteq> v)
    \<and> (\<forall>r \<in> set (trips s'). t_vin r \<noteq> v)
    \<and> (\<forall>r \<in> set (fuel_logs s'). f_vin r \<noteq> v)
    \<and> (\<forall>r \<in> set (repairs s'). r_vin r \<noteq> v)
    \<and> (\<forall>r \<in> set (maintenance_intervals s'). m_vin r \<noteq> v)
    \<and> (\<forall>r \<in> set (mileage_history s'). h_vin r \<noteq> v)
    \<and> vehicles s' = filter (\<lambda>r. v_vin r \<noteq> v) (vehicles s)
    \<and> trips s' = filter (\<lambda>r. t_vin r \<noteq> v) (trips s)
    \<and> fuel_logs s' = filter (\<lambda>r. f_vin r \<noteq> v) (fuel_logs s)
    \<and> repairs s' = filter (\<lambda>r. r_vin r \<noteq> v) (repairs s)
    \<and> maintenance_intervals s' = filter (\<lambda>r. m_vin r \<noteq> v) (maintenance_intervals s)
    \<and> mileage_history s' = filter (\<lambda>r. h_vin r \<noteq> v) (mileage_history s)"
proof -
  from assms(2) obtain i where "i < length (vehicles s)" "v_vin (vehicles s ! i) = v"
    by (auto simp: get_vehicle_def find_Some_iff)
  then have ex: "\<exists>r \<in> set (vehicles s). v_vin r = v"
    by (metis nth_mem)
  then have pos: "0 < count_rows v_vin v (vehicles s)"
    by (auto simp: count_rows_def filter_empty_conv)
  have none: "find (\<lambda>r. v_vin r = v) (delete_rows v_vin v (vehicles s)) = None"
    by (simp add: find_None_iff delete_rows_def)
  show ?thesis
    using assms pos none
    by (simp add: vehicle_delete_def base_delete_vehicle_def get_vehicle_def Let_def delete_rows_def)
qed

theorem vehicle_delete_cascades_witness:
  "vehicle_delete garage_db ''1HGCM82633A004352''
     = (Inr True, empty_db\<lparr>fuel_logs := tl (fuel_logs garage_db), seq_maintenance := 2\<rparr>)"
proof -
  have g: "get_vehicle garage_db ''1HGCM82633A004352'' = Some (hd (vehicles garage_db))"
    by (simp add: get_vehicle_def example_dbs)
  have "\<exists>s'. vehicle_delete garage_db ''1HGCM82633A004352'' = (Inr True, s')"
    using vehicle_delete_cascades [OF example_vin g] by blast
  moreover have "snd (vehicle_delete garage_db ''1HGCM82633A004352'')
       = empty_db\<lparr>fuel_logs := tl (fuel_logs garage_db), seq_maintenance := 2\<rparr>"
    by (simp add: vehicle_delete_def example_vin base_delete_vehicle_def get_vehicle_def example_dbs
        delete_rows_def)
  ultimately show ?thesis by auto
qed

text \<open>
  Claim C2 does not hold of \<open>VehicleService.delete\<close>. On a store where the identifier
  has no row in \<open>vehicles\<close> but one fuel entry, the call raises \<open>NotFoundError\<close> after
  it has deleted, and committed the deletion of, that fuel entry: the existence check of
  \<open>BaseService.delete\<close> runs last. \<open>BaseService.delete\<close> alone, which checks first,
  leaves the store as it was.
\<close>

theorem vehicle_delete_missing_vehicle:
  "get_vehicle orphan_db ''1HGCM82633A004352'' = None
   \<and> vehicle_delete orphan_db ''1HGCM82633A004352'' = (Inl NotFoundError, empty_db)
   \<and> fuel_logs orphan_db \<noteq> fuel_logs empty_db
   \<and> base_delete_vehicle orphan_db ''1HGCM82633A004352'' = (Inl NotFoundError, orphan_db)"
  by (simp add: vehicle_delete_def example_vin base_delete_vehicle_def get_vehicle_def
      example_dbs delete_rows_def)

section \<open>Properties of the default-interval seeding\<close>

lemma insert_interval_simps:
  "maintenance_intervals (snd (execute_insert_interval now row s))
     = maintenance_intervals s @ [row\<lparr>m_id := next_id s, m_updated_at := now\<rparr>]"
  "vehicles (snd (execute_insert_interval now row s)) = vehicles s"
  "trips (snd (execute_insert_interval now row s)) = trips s"
  "fuel_logs (snd (execute_insert_interval now row s)) = fuel_logs s"
  "repairs (snd (execute_insert_interval now row s)) = repairs s"
  "mileage_history (snd (execute_insert_interval now row s)) = mileage_history s"
  by (simp_all add: execute_insert_interval_def)

lemma get_interval_None: "get_interval s v st = None \<longleftrightarrow> rows_for s v st = []"
  by (auto simp: get_interval_def rows_for_def find_None_iff filter_empty_conv)

lemma rows_for_insert:
  "rows_for (snd (execute_insert_interval now (default_row v st mi mo nx) s)) v st'
     = rows_for s v st' @ (if st' = st
         then [(default_row v st mi mo nx)\<lparr>m_id := next_id s, m_updated_at := now\<rparr>] else [])"
  by (simp add: rows_for_def insert_interval_simps is_interval_def default_row_def)

lemma seed_other_tables:
  "seed_defaults fails now v c ds s = (r, s') \<Longrightarrow>
     vehicles s' = vehicles s \<and> trips s' = trips s \<and> fuel_logs s' = fuel_logs s
     \<and> repairs s' = repairs s \<and> mileage_history s' = mileage_history s"
proof (induction fails now v c ds s rule: seed_defaults.induct)
  case (1 fails now vin current_mileage s)
  then show ?case by simp
next
  case (2 fails now vin current_mileage service_type miles months rest s)
  then show ?case
    by (auto simp: insert_interval_simps split: option.splits if_splits)
qed

lemma seed_prefix:
  "seed_defaults fails now v c ds s = (r, s') \<Longrightarrow>
     \<exists>new. maintenance_intervals s' = maintenance_intervals s @ new"
proof (induction fails now v c ds s rule: seed_defaults.induct)
  case (1 fails now vin current_mileage s)
  then show ?case by simp
next
  case (2 fails now vin current_mileage service_type miles months rest s)
  then show ?case
    by (fastforce simp: insert_interval_simps split: option.splits if_splits)
qed

lemma seed_rows_existing:
  "seed_defaults fails now v c ds s = (r, s') \<Longrightarrow> rows_for s v st \<noteq> [] \<Longrightarrow>
     rows_for s' v st = rows_for s v st"
proof (induction fails now v c ds s rule: seed_defaults.induct)
  case (1 fails now vin current_mileage s)
  then show ?case by simp
next
  case (2 fails now vin current_mileage service_type miles months rest s)
  show ?case
  proof (cases "get_interval s vin service_type")
    case (Some a)
    with 2 show ?thesis by simp
  next
    case None
    then have ne: "st \<noteq> service_type"
      using "2.prems"(2) by (auto simp: get_interval_None)
    show ?thesis
    proof (cases "fails service_type")
      case True
      with None "2.prems" show ?thesis by simp
    next
      case False
      let ?s1 = "snd (execute_insert_interval now
               (default_row vin service_type miles months (current_mileage + miles)) s)"
      have r1: "rows_for ?s1 vin st = rows_for s vin st"
        using ne by (simp add: rows_for_insert)
      have "rows_for s' vin st = rows_for ?s1 vin st"
        using "2.IH"(1) [OF None False] "2.prems" None False r1 by simp
      with r1 show ?thesis by simp
    qed
  qed
qed

lemma seed_rows_absent:
  "seed_defaults fails now v c ds s = (r, s') \<Longrightarrow> rows_for s v st = [] \<Longrightarrow>
     st \<notin> fst ` set ds \<Longrightarrow> rows_for s' v st = []"
proof (induction fails now v c ds s rule: seed_defaults.induct)
  case (1 fails now vin current_mileage s)
  then show ?case by simp
next
  case (2 fails now vin current_mileage service_type miles months rest s)
  from "2.prems"(3) have ne: "st \<noteq> service_type" and nin: "st \<notin> fst ` set rest"
    by auto
  show ?case
  proof (cases "get_interval s vin service_type")
    case (Some a)
    with 2 nin show ?thesis by simp
  next
    case None
    show ?thesis
    proof (cases "fails service_type")
      case True
      with None "2.prems" show ?thesis by simp
    next
      case False
      let ?s1 = "snd (execute_insert_interval now
               (default_row vin service_type miles months (current_mileage + miles)) s)"
      have r1: "rows_for ?s1 vin st = []"
        using ne "2.prems"(2) by (simp add: rows_for_insert)
      show ?thesis
        using "2.IH"(1) [OF None False _ r1 nin] "2.prems"(1) None False by simp
    qed
  qed
qed

lemma seed_rows_new:
  "seed_defaults (\<lambda>_. False) now v c ds s = (r, s') \<Longrightarrow> distinct (map fst ds) \<Longrightarrow>
     (st, mi, mo) \<in> set ds \<Longrightarrow> rows_for s v st = [] \<Longrightarrow>
     \<exists>i. rows_for s' v st = [(default_row v st mi mo (c + mi))\<lparr>m_id := i, m_updated_at := now\<rparr>]"
proof (induction "\<lambda>_::string. False" now v c ds s rule: seed_defaults.induct)
  case (1 now vin current_mileage s)
  then show ?case by simp
next
  case (2 now vin current_mileage service_type miles months rest s)
  let ?s1 = "snd (execute_insert_interval now
               (default_row vin service_type miles months (current_mileage + miles)) s)"
  show ?case
  proof (cases "get_interval s vin service_type")
    case (Some a)
    then have "rows_for s vin service_type \<noteq> []"
      using get_interval_None [of s vin service_type] by simp
    with "2.prems"(4) have "st \<noteq> service_type" by auto
    with "2.prems"(3) have "(st, mi, mo) \<in> set rest" by auto
    with 2 Some show ?thesis by simp
  next
    case None
    have run: "seed_defaults (\<lambda>_. False) now vin current_mileage rest ?s1 = (r, s')"
      using "2.prems"(1) None by simp
    show ?thesis
    proof (cases "st = service_type")
      case True
      with "2.prems"(2,3) have eq: "mi = miles" "mo = months"
        by (auto simp: image_iff) 
      have r1: "rows_for ?s1 vin st
          = [(default_row vin st mi mo (current_mileage + mi))\<lparr>m_id := next_id s, m_updated_at := now\<rparr>]"
        using True eq "2.prems"(4) by (simp add: rows_for_insert)
      then have "rows_for ?s1 vin st \<noteq> []" by simp
      from seed_rows_existing [OF run this] r1 show ?thesis by auto
    next
      case False
      with "2.prems"(3) have mem: "(st, mi, mo) \<in> set rest" by auto
      have r1: "rows_for ?s1 vin st = []"
        using False "2.prems"(4) by (simp add: rows_for_insert)
      from "2.prems"(2) have d: "distinct (map fst rest)" by simp
      show ?thesis
        using "2.hyps"(1) [OF None _ run d mem r1] by simp
    qed
  qed
qed

lemma seed_no_error:
  "seed_defaults (\<lambda>_. False) now v c ds s = (r, s') \<Longrightarrow> r = None"
  by (induction "\<lambda>_::string. False" now v c ds s rule: seed_defaults.induct)
    (auto split: option.splits)

lemma seed_noop:
  "\<forall>st \<in> fst ` set ds. rows_for s v st \<noteq> [] \<Longrightarrow> seed_defaults fails now v c ds s = (None, s)"
proof (induction fails now v c ds s rule: seed_defaults.induct)
  case (1 fails now vin current_mileage s)
  then show ?case by simp
next
  case (2 fails now vin current_mileage service_type miles months rest s)
  then have "get_interval s vin service_type \<noteq> None"
    by (simp add: get_interval_None)
  with 2 show ?case by auto
qed

lemma distinct_defaults: "distinct (map fst DEFAULT_INTERVALS)"
  by (simp add: DEFAULT_INTERVALS_def)

lemma set_get_by_vin:
  "validate_vin v = Inr v \<Longrightarrow>
     \<exists>rows. maintenance_get_by_vin s v = Inr rows
       \<and> set rows = {m \<in> set (maintenance_intervals s). m_vin m = v}"
  by (auto simp: maintenance_get_by_vin_def order_by_asc_def Let_def)

text \<open>
  Claim C3. For an existing vehicle, \<open>initialize_for_vehicle\<close> succeeds, and running it
  again, at any later time, returns the same rows and leaves the store as the first run
  left it. After the run every default service type that had no interval of the vehicle
  has exactly one, with the default miles and months as intervals and a next-due mileage
  that is the vehicle's current mileage (0 when \<open>NULL\<close>) + the default miles; the
  intervals that existed before, of the default service types and of the others, are the
  same rows as before, and the other tables are unchanged.
\<close>

theorem initialize_for_vehicle_idempotent:
  assumes "validate_vin vin = Inr v" and "get_vehicle s v = Some x"
  shows "\<exists>rows s1. initialize_for_vehicle now s vin = (Inr rows, s1)
     \<and> initialize_for_vehicle now' s1 vin = (Inr rows, s1)
     \<and> set rows = {m \<in> set (maintenance_intervals s1). m_vin m = v}
     \<and> (\<exists>new. maintenance_intervals s1 = maintenance_intervals s @ new)
     \<and> (\<forall>(st, miles, months) \<in> set DEFAULT_INTERVALS.
          if filter (\<lambda>m. m_vin m = v \<and> m_service_type m = st) (maintenance_intervals s) = []
          then \<exists>m. filter (\<lambda>m. m_vin m = v \<and> m_service_type m = st) (maintenance_intervals s1)
                = [m]
              \<and> m_vin m = v \<and> m_service_type m = st
              \<and> m_interval_miles m = Some miles \<and> m_interval_months m = Some months
              \<and> m_next_due_mileage m
                  = Some ((case v_current_mileage x of None \<Rightarrow> 0 | Some c \<Rightarrow> c) + miles)
              \<and> m_last_performed_date m = None \<and> m_last_performed_mileage m = None
              \<and> m_next_due_date m = None \<and> m_updated_at m = now
          else filter (\<lambda>m. m_vin m = v \<and> m_service_type m = st) (maintenance_intervals s1)
             = filter (\<lambda>m. m_vin m = v \<and> m_service_type m = st) (maintenance_intervals s))
     \<and> (\<forall>st. st \<notin> fst ` set DEFAULT_INTERVALS \<longrightarrow>
          filter (\<lambda>m. m_vin m = v \<and> m_service_type m = st) (maintenance_intervals s1)
             = filter (\<lambda>m. m_vin m = v \<and> m_service_type m = st) (maintenance_intervals s))
     \<and> vehicles s1 = vehicles s \<and> trips s1 = trips s \<and> fuel_logs s1 = fuel_logs s
     \<and> repairs s1 = repairs s \<and> mileage_history s1 = mileage_history s"
proof -
  define c where "c = (case v_current_mileage x of None \<Rightarrow> 0 | Some c \<Rightarrow> c)"
  have c: "or0 (v_current_mileage x) = c"
    by (simp add: or0_def c_def)
  have rf: "rows_for t v st
      = filter (\<lambda>m. m_vin m = v \<and> m_service_type m = st) (maintenance_intervals t)" for t st
    by (simp add: rows_for_def is_interval_def [abs_def])
  obtain r s1 where run: "seed_defaults (\<lambda>_. False) now v c DEFAULT_INTERVALS s = (r, s1)"
    by (cases "seed_defaults (\<lambda>_. False) now v c DEFAULT_INTERVALS s") auto
  have r: "r = None"
    using run by (rule seed_no_error)
  have vv: "validate_vin v = Inr v"
    using assms(1) by (rule validate_vin_idem)
  obtain rows where rows: "maintenance_get_by_vin s1 v = Inr rows"
    and set_rows: "set rows = {m \<in> set (maintenance_intervals s1). m_vin m = v}"
    using set_get_by_vin [OF vv] by blast
  have first: "initialize_for_vehicle now s vin = (Inr rows, s1)"
    using assms run r rows by (simp add: initialize_for_vehicle_def initialize_with_def c)
  have other: "vehicles s1 = vehicles s \<and> trips s1 = trips s \<and> fuel_logs s1 = fuel_logs s
     \<and> repairs s1 = repairs s \<and> mileage_history s1 = mileage_history s"
    using run by (rule seed_other_tables)
  have new: "\<exists>m. rows_for s1 v st = [m]
              \<and> m_vin m = v \<and> m_service_type m = st
              \<and> m_interval_miles m = Some mi \<and> m_interval_months m = Some mo
              \<and> m_next_due_mileage m = Some (c + mi)
              \<and> m_last_performed_date m = None \<and> m_last_performed_mileage m = None
              \<and> m_next_due_date m = None \<and> m_updated_at m = now"
    if mem: "(st, mi, mo) \<in> set DEFAULT_INTERVALS" and empty: "rows_for s v st = []"
    for st mi mo
  proof -
    obtain i where "rows_for s1 v st
        = [(default_row v st mi mo (c + mi))\<lparr>m_id := i, m_updated_at := now\<rparr>]"
      using seed_rows_new [OF run distinct_defaults mem empty] by blast
    then show ?thesis
      by (simp add: default_row_def)
  qed
  have old: "rows_for s1 v st = rows_for s v st" if "rows_for s v st \<noteq> []" for st
    using seed_rows_existing [OF run that] .
  have absent: "rows_for s1 v st = rows_for s v st" if "st \<notin> fst ` set DEFAULT_INTERVALS" for st
  proof (cases "rows_for s v st = []")
    case True
    with seed_rows_absent [OF run True that] show ?thesis by simp
  next
    case False
    then show ?thesis by (rule old)
  qed
  have covered: "\<forall>st \<in> fst ` set DEFAULT_INTERVALS. rows_for s1 v st \<noteq> []"
  proof
    fix st assume "st \<in> fst ` set DEFAULT_INTERVALS"
    then obtain mi mo where mem: "(st, mi, mo) \<in> set DEFAULT_INTERVALS" by auto
    show "rows_for s1 v st \<noteq> []"
    proof (cases "rows_for s v st = []")
      case True
      from new [OF mem True] show ?thesis by auto
    next
      case False
      with old [OF False] show ?thesis by simp
    qed
  qed
  have g1: "get_vehicle s1 v = Some x"
    using assms(2) other by (simp add: get_vehicle_def)
  have second: "initialize_for_vehicle now' s1 vin = (Inr rows, s1)"
    using assms(1) g1 rows seed_noop [OF covered]
    by (simp add: initialize_for_vehicle_def initialize_with_def c)
  have defaults: "\<forall>(st, miles, months) \<in> set DEFAULT_INTERVALS.
          if rows_for s v st = []
          then \<exists>m. rows_for s1 v st = [m]
              \<and> m_vin m = v \<and> m_service_type m = st
              \<and> m_interval_miles m = Some miles \<and> m_interval_months m = Some months
              \<and> m_next_due_mileage m = Some (c + miles)
              \<and> m_last_performed_date m = None \<and> m_last_performed_mileage m = None
              \<and> m_next_due_date m = None \<and> m_updated_at m = now
          else rows_for s1 v st = rows_for s v st"
    using new old by auto
  have absent': "\<forall>st. st \<notin> fst ` set DEFAULT_INTERVALS \<longrightarrow> rows_for s1 v st = rows_for s v st"
    using absent by blast
  have "initialize_for_vehicle now s vin = (Inr rows, s1)
     \<and> initialize_for_vehicle now' s1 vin = (Inr rows, s1)
     \<and> set rows = {m \<in> set (maintenance_intervals s1). m_vin m = v}
     \<and> (\<exists>new. maintenance_intervals s1 = maintenance_intervals s @ new)
     \<and> (\<forall>(st, miles, months) \<in> set DEFAULT_INTERVALS.
          if rows_for s v st = []
          then \<exists>m. rows_for s1 v st = [m]
              \<and> m_vin m = v \<and> m_service_type m = st
              \<and> m_interval_miles m = Some miles \<and> m_interval_months m = Some months
              \<and> m_next_due_mileage m = Some (c + miles)
              \<and> m_last_performed_date m = None \<and> m_last_performed_mileage m = None
              \<and> m_next_due_date m = None \<and> m_updated_at m = now
          else rows_for s1 v st = rows_for s v st)
     \<and> (\<forall>st. st \<notin> fst ` set DEFAULT_INTERVALS \<longrightarrow> rows_for s1 v st = rows_for s v st)
     \<and> vehicles s1 = vehicles s \<and> trips s1 = trips s \<and> fuel_logs s1 = fuel_logs s
     \<and> repairs s1 = repairs s \<and> mileage_history s1 = mileage_history s"
    using first second set_rows seed_prefix [OF run] defaults absent' other by (intro conjI) blast+
  then show ?thesis
    unfolding rf c_def by (intro exI)
qed

text \<open>
  On a vehicle at 50000 miles that already has a brake inspection (every 15000 miles,
  due at 55000) and an oil change interval, a second run changes nothing, and the table
  holds the two old rows followed by the eight new ones.
\<close>

theorem initialize_for_vehicle_idempotent_witness:
  "(\<exists>rows s1. initialize_for_vehicle ''2024-09-01 10:00:00'' (overdue_db (Some 50000))
        ''1HGCM82633A004352'' = (Inr rows, s1)
      \<and> initialize_for_vehicle ''2024-09-02 11:30:00'' s1 ''1HGCM82633A004352'' = (Inr rows, s1))
   \<and> map (\<lambda>m. (m_service_type m, m_interval_miles m, m_interval_months m, m_next_due_mileage m))
        (maintenance_intervals (snd (initialize_for_vehicle
          ''2024-09-01 10:00:00'' (overdue_db (Some 50000)) ''1HGCM82633A004352'')))
      = [(''Brake Inspection'', Some 15000, Some 12, Some 55000),
         (''Oil Change'', Some 5000, Some 6, Some 47000),
         (''Transmission Fluid'', Some 60000, Some 48, Some (50000 + 60000)),
         (''Air Filter'', Some 15000, Some 12, Some (50000 + 15000)),
         (''Tire Rotation'', Some 7500, Some 6, Some (50000 + 7500)),
         (''Coolant Flush'', Some 30000, Some 36, Some (50000 + 30000)),
         (''Spark Plugs'', Some 60000, Some 60, Some (50000 + 60000)),
         (''Battery Check'', Some 25000, Some 24, Some (50000 + 25000)),
         (''Brake Fluid'', Some 30000, Some 24, Some (50000 + 30000)),
         (''Power Steering Fluid'', Some 50000, Some 48, Some (50000 + 50000))]"
proof -
  have g: "get_vehicle (overdue_db (Some 50000)) ''1HGCM82633A004352''
      = Some (hd (vehicles (overdue_db (Some 50000))))"
    by (simp add: get_vehicle_def example_dbs)
  have a: "\<exists>rows s1. initialize_for_vehicle ''2024-09-01 10:00:00'' (overdue_db (Some 50000))
        ''1HGCM82633A004352'' = (Inr rows, s1)
      \<and> initialize_for_vehicle ''2024-09-02 11:30:00'' s1 ''1HGCM82633A004352'' = (Inr rows, s1)"
    using initialize_for_vehicle_idempotent [OF example_vin g,
        where now = "''2024-09-01 10:00:00''" and now' = "''2024-09-02 11:30:00''"]
    by blast
  have n: "map (\<lambda>m. (m_service_type m, m_interval_miles m, m_interval_months m, m_next_due_mileage m))
        (maintenance_intervals (snd (initialize_for_vehicle
          ''2024-09-01 10:00:00'' (overdue_db (Some 50000)) ''1HGCM82633A004352'')))
      = [(''Brake Inspection'', Some 15000, Some 12, Some 55000),
         (''Oil Change'', Some 5000, Some 6, Some 47000),
         (''Transmission Fluid'', Some 60000, Some 48, Some (50000 + 60000)),
         (''Air Filter'', Some 15000, Some 12, Some (50000 + 15000)),
         (''Tire Rotation'', Some 7500, Some 6, Some (50000 + 7500)),
         (''Coolant Flush'', Some 30000, Some 36, Some (50000 + 30000)),
         (''Spark Plugs'', Some 60000, Some 60, Some (50000 + 60000)),
         (''Battery Check'', Some 25000, Some 24, Some (50000 + 25000)),
         (''Brake Fluid'', Some 30000, Some 24, Some (50000 + 30000)),
         (''Power Steering Fluid'', Some 50000, Some 48, Some (50000 + 50000))]"
    by code_simp
  show ?thesis
    using a n by (rule conjI)
qed

section \<open>Properties of recording a service\<close>

lemma find_map_update:
  "find (\<lambda>m. m_id m = i) (map (\<lambda>m. if m_id m = i then g m else m) xs)
     = map_option g (find (\<lambda>m. m_id m = i) xs)"
  if "\<And>m. m_id (g m) = m_id m"
  by (induction xs) (simp_all add: that)

lemma get_interval_has_id:
  assumes "get_interval s v st = Some interval"
  shows "\<exists>existing. maintenance_get_by_id s (m_id interval) = Some existing
     \<and> m_id existing = m_id interval"
proof -
  from assms have "interval \<in> set (maintenance_intervals s)"
    by (auto simp: get_interval_def find_Some_iff)
  then have "find (\<lambda>m. m_id m = m_id interval) (maintenance_intervals s) \<noteq> None"
    by (auto simp: find_None_iff)
  then obtain existing where e: "find (\<lambda>m. m_id m = m_id interval) (maintenance_intervals s) = Some existing"
    by auto
  then have "m_id existing = m_id interval"
    by (auto simp: find_Some_iff)
  with e show ?thesis
    by (simp add: maintenance_get_by_id_def)
qed

lemma find_SomeD: "find P xs = Some x \<Longrightarrow> x \<in> set xs \<and> P x"
  by (induction xs) (auto split: if_splits)

lemma update_service_found:
  assumes "maintenance_get_by_id s i = Some existing"
  shows "\<exists>s'. update_service now s i date mileage next_date next_mileage
      = (Inr (Some (set_service_fields now date mileage next_date next_mileage existing)), s')
    \<and> set_service_fields now date mileage next_date next_mileage existing
        \<in> set (maintenance_intervals s')"
proof -
  define g where "g = set_service_fields now date mileage next_date next_mileage"
  define xs where "xs = map (\<lambda>m. if m_id m = i then g m else m) (maintenance_intervals s)"
  define s' where "s' = s\<lparr>maintenance_intervals := xs\<rparr>"
  have id: "m_id (g m) = m_id m" for m
    by (simp add: g_def set_service_fields_def)
  have "find (\<lambda>m. m_id m = i) xs = map_option g (find (\<lambda>m. m_id m = i) (maintenance_intervals s))"
    unfolding xs_def using id by (rule find_map_update)
  then have f: "find (\<lambda>m. m_id m = i) xs = Some (g existing)"
    using assms by (simp add: maintenance_get_by_id_def)
  then have mem: "g existing \<in> set xs"
    using find_SomeD by fastforce
  have get: "maintenance_get_by_id s' i = Some (g existing)"
    using f by (simp add: maintenance_get_by_id_def s'_def)
  have "update_service now s i date mileage next_date next_mileage
      = (Inr (maintenance_get_by_id s' i), s')"
    unfolding update_service_def s'_def xs_def g_def using assms by (simp add: Let_def)
  with get have run: "update_service now s i date mileage next_date next_mileage
      = (Inr (Some (g existing)), s')"
    by simp
  have "g existing \<in> set (maintenance_intervals s')"
    using mem by (simp add: s'_def)
  with run show ?thesis
    unfolding g_def by blast
qed
lemma strptime_Nil: "strptime [] = Inl ValueError"
  by (simp add: strptime_def)

lemma next_due_mileage_eq:
  "next_due_mileage interval (Some mileage) =
     Inr (case m_interval_miles interval of
            None \<Rightarrow> None
          | Some miles \<Rightarrow> if miles = 0 then None else Some (mileage + miles))"
  by (cases "m_interval_miles interval") (simp_all add: next_due_mileage_def truthy_def or0_def)

lemma next_due_date_eq:
  assumes "strptime date = Inr d"
    and "1 \<le> d + or0 (m_interval_months interval) * 30"
    and "d + or0 (m_interval_months interval) * 30 \<le> 3652059"
  shows "next_due_date interval date =
     Inr (case m_interval_months interval of
            None \<Rightarrow> None
          | Some months \<Rightarrow> if months = 0 then None else Some (strftime (d + months * 30)))"
proof (cases "m_interval_months interval")
  case None
  then show ?thesis
    by (simp add: next_due_date_def truthy_def)
next
  case (Some months)
  with assms show ?thesis
    by (simp add: next_due_date_def truthy_def or0_def add_days_def)
qed

text \<open>
  Claim C7. For a valid identifier, a date that \<open>strptime\<close> accepts, a mileage that
  is not negative and a matching interval, \<open>record_service\<close> succeeds, as long as the
  new date stays within the years 1 to 9999. The row it returns, which is stored, has
  the recorded date and mileage as last-performed values; its next-due mileage is the
  recorded mileage + \<open>interval_miles\<close> when that is set and not 0, and \<open>NULL\<close> otherwise;
  its next-due date is the recorded date + \<open>interval_months\<close> times 30 days when that
  is set and not 0, and \<open>NULL\<close> otherwise. So a positive \<open>interval_miles\<close> gives a
  next-due mileage that is at least the recorded mileage.
\<close>

theorem record_service_next_due:
  assumes "validate_vin vin = Inr v"
    and "strptime date = Inr d"
    and "get_interval s v service_type = Some interval"
    and "0 \<le> mileage"
    and "1 \<le> d + or0 (m_interval_months interval) * 30"
    and "d + or0 (m_interval_months interval) * 30 \<le> 3652059"
  shows "\<exists>row s'. record_service today now s vin service_type (Some date) (Some mileage)
        = (Inr (Some row), s')
     \<and> m_id row = m_id interval \<and> row \<in> set (maintenance_intervals s')
     \<and> m_last_performed_date row = Some date \<and> m_last_performed_mileage row = Some mileage
     \<and> m_next_due_mileage row =
          (case m_interval_miles interval of
             None \<Rightarrow> None
           | Some miles \<Rightarrow> if miles = 0 then None else Some (mileage + miles))
     \<and> m_next_due_date row =
          (case m_interval_months interval of
             None \<Rightarrow> None
           | Some months \<Rightarrow> if months = 0 then None else Some (strftime (d + months * 30)))
     \<and> (\<forall>miles. m_interval_miles interval = Some miles \<and> 0 < miles
           \<longrightarrow> (\<exists>due. m_next_due_mileage row = Some due \<and> mileage \<le> due))"
proof -
  have ne: "date \<noteq> []"
  proof
    assume "date = []"
    with assms(2) show False by (simp add: strptime_Nil)
  qed
  have sd: "service_date today (Some date) = Inr date"
    using ne assms(2) by (simp add: service_date_def validate_date_def)
  have sm: "service_mileage s v (Some mileage) = Inr (Some mileage)"
    using assms(4) by (simp add: service_mileage_def)
  define nm where "nm = (case m_interval_miles interval of
             None \<Rightarrow> None
           | Some miles \<Rightarrow> if miles = 0 then None else Some (mileage + miles))"
  define nd where "nd = (case m_interval_months interval of
             None \<Rightarrow> None
           | Some months \<Rightarrow> if months = 0 then None else Some (strftime (d + months * 30)))"
  have nm: "next_due_mileage interval (Some mileage) = Inr nm"
    unfolding nm_def by (rule next_due_mileage_eq)
  have nd: "next_due_date interval date = Inr nd"
    unfolding nd_def using assms(2,5,6) by (rule next_due_date_eq)
  obtain existing where ex: "maintenance_get_by_id s (m_id interval) = Some existing"
    and exid: "m_id existing = m_id interval"
    using get_interval_has_id [OF assms(3)] by blast
  define row where "row = set_service_fields now date (Some mileage) nd nm existing"
  obtain s' where run: "update_service now s (m_id interval) date (Some mileage) nd nm
      = (Inr (Some row), s')" and mem: "row \<in> set (maintenance_intervals s')"
    unfolding row_def using update_service_found [OF ex] by blast
  have rs: "record_service today now s vin service_type (Some date) (Some mileage)
        = (Inr (Some row), s')"
    by (simp add: record_service_def assms(1) assms(3) sd sm nm nd run)
  have f1: "m_id row = m_id interval"
    using exid by (simp add: row_def set_service_fields_def)
  have f2: "m_last_performed_date row = Some date"
    by (simp add: row_def set_service_fields_def)
  have f3: "m_last_performed_mileage row = Some mileage"
    by (simp add: row_def set_service_fields_def)
  have f4: "m_next_due_mileage row = nm"
    by (simp add: row_def set_service_fields_def)
  have f5: "m_next_due_date row = nd"
    by (simp add: row_def set_service_fields_def)
  have ge: "\<forall>miles. m_interval_miles interval = Some miles \<and> 0 < miles
           \<longrightarrow> (\<exists>due. m_next_due_mileage row = Some due \<and> mileage \<le> due)"
    by (simp add: f4 nm_def)
  have "record_service today now s vin service_type (Some date) (Some mileage)
        = (Inr (Some row), s')
     \<and> m_id row = m_id interval \<and> row \<in> set (maintenance_intervals s')
     \<and> m_last_performed_date row = Some date \<and> m_last_performed_mileage row = Some mileage
     \<and> m_next_due_mileage row = nm \<and> m_next_due_date row = nd
     \<and> (\<forall>miles. m_interval_miles interval = Some miles \<and> 0 < miles
           \<longrightarrow> (\<exists>due. m_next_due_mileage row = Some due \<and> mileage \<le> due))"
    using rs f1 mem f2 f3 f4 f5 ge by (intro conjI)
  then show ?thesis
    unfolding nm_def nd_def by (intro exI)
qed

theorem record_service_next_due_witness:
  "\<exists>row s'. record_service ''2024-09-01'' ''2024-09-01 10:00:00'' (overdue_db (Some 50000))
        ''1HGCM82633A004352'' ''Oil Change'' (Some ''2024-01-15'') (Some 48000)
        = (Inr (Some row), s')
     \<and> m_next_due_mileage row = Some (48000 + 5000)
     \<and> m_next_due_date row = Some ''2024-07-13''"
proof -
  have d: "strptime ''2024-01-15'' = Inr 738900"
    by code_simp
  have f: "strftime (738900 + 6 * 30) = ''2024-07-13''"
    by code_simp
  have g: "get_interval (overdue_db (Some 50000)) ''1HGCM82633A004352'' ''Oil Change''
      = Some \<lparr>m_id = 2, m_vin = ''1HGCM82633A004352'', m_service_type = ''Oil Change'',
          m_interval_miles = Some 5000, m_interval_months = Some 6,
          m_last_performed_date = None, m_last_performed_mileage = None,
          m_next_due_date = None, m_next_due_mileage = Some 47000,
          m_updated_at = ''2024-01-01 00:00:00''\<rparr>"
    by (simp add: get_interval_def is_interval_def example_dbs)
  have "\<exists>row s'. record_service ''2024-09-01'' ''2024-09-01 10:00:00'' (overdue_db (Some 50000))
        ''1HGCM82633A004352'' ''Oil Change'' (Some ''2024-01-15'') (Some 48000)
        = (Inr (Some row), s')
     \<and> m_next_due_mileage row = Some (48000 + 5000)
     \<and> m_next_due_date row = Some (strftime (738900 + 6 * 30))"
    using record_service_next_due [OF example_vin d g, where mileage = 48000
        and today = "''2024-09-01''" and now = "''2024-09-01 10:00:00''"]
    by (simp add: or0_def) blast
  then show ?thesis
    by (simp only: f)
qed

section \<open>Properties of vehicle creation\<close>

lemma initialize_with_vehicles:
  assumes "initialize_with fails now s vin = (r, s')"
  shows "vehicles s' = vehicles s"
proof (cases "validate_vin vin")
  case (Inl e)
  with assms show ?thesis by (simp add: initialize_with_def)
next
  case (Inr v)
  show ?thesis
  proof (cases "get_vehicle s v")
    case None
    with assms Inr show ?thesis by (simp add: initialize_with_def)
  next
    case (Some x)
    obtain e s1 where run:
      "seed_defaults fails now v (or0 (v_current_mileage x)) DEFAULT_INTERVALS s = (e, s1)"
      by (cases "seed_defaults fails now v (or0 (v_current_mileage x)) DEFAULT_INTERVALS s") auto
    have "s' = s1"
      using assms Inr Some run by (cases e) (simp_all add: initialize_with_def)
    with seed_other_tables [OF run] show ?thesis by simp
  qed
qed

lemma find_append_new: "find P xs = None \<Longrightarrow> P x \<Longrightarrow> find P (xs @ [x]) = Some x"
  by (induction xs) (auto split: if_splits)

text \<open>
  A failure of the seeding never reaches the caller of \<open>VehicleService.create\<close>: for a
  valid request for a new vehicle the call returns, whatever insertions the store
  refuses, and the vehicle is stored.
\<close>

lemma vehicle_create_swallows:
  assumes v: "validate_vin (d_vin data) = Inr v"
    and y: "d_year data = Some year" "1900 \<le> year" "year \<le> 2100"
    and new: "get_vehicle s v = None"
    and mk: "d_make data = Some mk" "d_model data = Some md"
    and mil: "\<forall>m. d_current_mileage data = Some (Some m) \<longrightarrow> 0 \<le> m"
  shows "\<exists>r s'. vehicle_create fails now s data = (Inr r, s')
     \<and> (\<exists>x. get_vehicle s' v = Some x)"
proof -
  define row where "row = \<lparr>v_rowid = next_rowid s, v_vin = v, v_year = year, v_make = mk,
     v_model = md,
     v_current_mileage = (case d_current_mileage data of None \<Rightarrow> Some 0 | Some m \<Rightarrow> m)\<rparr>"
  define s1 where "s1 = s\<lparr>vehicles := vehicles s @ [row]\<rparr>"
  have base: "base_create_vehicle s v data (d_current_mileage data)
      = (Inr (get_vehicle_by_int s1 (next_rowid s)), s1)"
    by (simp add: base_create_vehicle_def y(1) mk execute_insert_vehicle_def s1_def row_def)
  have g1: "get_vehicle s1 v = Some row"
    using new by (simp add: get_vehicle_def s1_def find_append_new row_def)
  obtain r2 s2 where init: "initialize_with fails now s1 v = (r2, s2)"
    by (cases "initialize_with fails now s1 v") auto
  have g2: "get_vehicle s2 v = Some row"
    using g1 initialize_with_vehicles [OF init] by (simp add: get_vehicle_def)
  have nz: "year \<noteq> 0"
    using y(2) by simp
  have m: "\<not> (case d_current_mileage data of Some (Some m) \<Rightarrow> m < 0 | _ \<Rightarrow> False)"
    using mil by (auto split: option.splits)
  have "vehicle_create fails now s data = (Inr (get_vehicle_by_int s1 (next_rowid s)), s2)"
    unfolding vehicle_create_def
    using m nz by (cases r2) (simp_all add: v y truthy_def or0_def new base init)
  with g2 show ?thesis by blast
qed

lemma civic_vin: "validate_vin (d_vin civic) = Inr ''1HGCM82633A004352''"
  unfolding civic_def by code_simp

lemma civic_base:
  "base_create_vehicle empty_db ''1HGCM82633A004352'' civic (d_current_mileage civic)
     = (Inr None, empty_db\<lparr>vehicles := [civic_row]\<rparr>)"
proof -
  have "int_to_string 1 \<noteq> ''1HGCM82633A004352''"
    by code_simp
  then show ?thesis
    by (simp add: base_create_vehicle_def civic_def execute_insert_vehicle_def next_rowid_def
        empty_db_def get_vehicle_by_int_def get_vehicle_def civic_row_def)
qed

lemma civic_seeding_fails:
  "initialize_with (\<lambda>service_type. True) now (empty_db\<lparr>vehicles := [civic_row]\<rparr>)
      ''1HGCM82633A004352''
   = (Inl StoreError, empty_db\<lparr>vehicles := [civic_row]\<rparr>)"
  by (simp add: initialize_with_def example_vin get_vehicle_def empty_db_def civic_row_def
      DEFAULT_INTERVALS_def get_interval_def)

text \<open>
  Claim C10 does not hold of \<open>VehicleService.create\<close> as far as the returned value goes.
  On the empty store, the request for the Civic stores the vehicle and returns \<open>None\<close>,
  not the row: \<open>BaseService.create\<close> looks the new row up under the integer rowid that
  \<open>execute_insert\<close> returned, and no vehicle has the identifier \<open>1\<close>. The rest of the
  claim holds there: with a store that refuses every insertion of an interval the call
  still returns, and the vehicle is stored with no maintenance interval; with a store
  that accepts them the ten default intervals are there.
\<close>

theorem vehicle_create_returns_none:
  "vehicle_create (\<lambda>service_type. True) ''2024-09-01 10:00:00'' empty_db civic
     = (Inr None, empty_db\<lparr>vehicles := [civic_row]\<rparr>)
   \<and> fst (vehicle_create (\<lambda>service_type. False) ''2024-09-01 10:00:00'' empty_db civic)
     = Inr None
   \<and> vehicles (snd (vehicle_create (\<lambda>service_type. False) ''2024-09-01 10:00:00'' empty_db civic))
     = [civic_row]
   \<and> length (maintenance_intervals
        (snd (vehicle_create (\<lambda>service_type. False) ''2024-09-01 10:00:00'' empty_db civic)))
     = 10"
proof -
  have g: "get_vehicle empty_db ''1HGCM82633A004352'' = None"
    by (simp add: get_vehicle_def empty_db_def)
  have y: "truthy (d_year civic)" "or0 (d_year civic) = 2020"
    "d_current_mileage civic = Some (Some 45000)"
    by (simp_all add: civic_def truthy_def or0_def)
  have a: "vehicle_create (\<lambda>service_type. True) ''2024-09-01 10:00:00'' empty_db civic
     = (Inr None, empty_db\<lparr>vehicles := [civic_row]\<rparr>)"
    unfolding vehicle_create_def
    by (simp add: civic_vin g y(1,2) civic_base civic_seeding_fails) (simp add: y(3))
  have b: "fst (vehicle_create (\<lambda>service_type. False) ''2024-09-01 10:00:00'' empty_db civic)
     = Inr None"
    by code_simp
  have c: "vehicles (snd (vehicle_create (\<lambda>service_type. False) ''2024-09-01 10:00:00''
      empty_db civic)) = [civic_row]"
    by code_simp
  have d: "length (maintenance_intervals
        (snd (vehicle_create (\<lambda>service_type. False) ''2024-09-01 10:00:00'' empty_db civic)))
     = 10"
    by code_simp
  show ?thesis
    using a b c d by (intro conjI)
qed

text \<open>
  So, when every insertion of an interval is refused, the caller gets \<open>None\<close>, the Civic
  is in the table of vehicles, and it has no maintenance interval.
\<close>

theorem vehicle_create_returns_none_witness:
  "fst (vehicle_create (\<lambda>service_type. True) ''2024-09-01 10:00:00'' empty_db civic) = Inr None
   \<and> get_vehicle (snd (vehicle_create (\<lambda>service_type. True) ''2024-09-01 10:00:00'' empty_db civic))
        ''1HGCM82633A004352'' = Some civic_row
   \<and> maintenance_intervals
        (snd (vehicle_create (\<lambda>service_type. True) ''2024-09-01 10:00:00'' empty_db civic)) = []"
  using vehicle_create_returns_none
  by (simp add: get_vehicle_def empty_db_def civic_row_def)

end
